theory Spec2Isabelle
  imports Main
begin

section \<open>AWS secret engine: access-key secrets (secret_access_keys.go)\<close>

text \<open>
  A shallow embedding of the Go file that issues, renews and revokes AWS credentials.
  Every collaborator that the file calls but does not define (the IAM and STS clients,
  the storage, the template engine, the lease configuration, the clock) is a field of an
  environment record. The answer of a collaborator may depend on everything that
  happened before the call, so each field takes the history of calls as an argument.
\<close>

subsection \<open>Errors\<close>

text \<open>
  A Go \<open>error\<close> value. \<open>ExtErr\<close> is an error produced by a collaborator,
  \<open>Errorf p e\<close> is \<open>fmt.Errorf(p + ": %w", e)\<close>, \<open>ErrorMsg\<close> is \<open>fmt.Errorf\<close>
  without a wrapped error and \<open>ErrWrap outer inner\<close> is \<open>errwrap.Wrap(outer, inner)\<close>.
\<close>

datatype err =
    ExtErr string
  | Errorf string err
  | ErrorMsg string
  | ErrWrap err err

fun error_text :: "err \<Rightarrow> string" where
  "error_text (ExtErr m) = m"
| "error_text (Errorf p e) = p @ '': '' @ error_text e"
| "error_text (ErrorMsg m) = m"
| "error_text (ErrWrap outer inner) = error_text outer"

subsection \<open>Username generation\<close>

record UsernameMetadata =
  Type :: string
  DisplayName :: string
  PolicyName :: string

text \<open>
  The template engine (\<open>template.NewTemplate\<close> and \<open>Generate\<close>) is a collaborator.
  \<open>NewTemplate\<close> answers with the error of parsing a template text, if any, and
  \<open>Generate\<close> renders a parsed template against the metadata.
\<close>

record template_engine =
  NewTemplate :: "string \<Rightarrow> err option"
  Generate :: "string \<Rightarrow> UsernameMetadata \<Rightarrow> err + string"

text \<open>
  \<open>normalizeDisplayName\<close> replaces every match of the regular expression
  \<open>[^a-zA-Z0-9+=,.@_-]\<close> by an underscore. Go's regexp walks the string rune by
  rune: a well-formed UTF-8 sequence of several bytes is one rune, and each byte of an
  ill-formed sequence is one rune (U+FFFD). No rune outside ASCII is in the class, so
  such a rune becomes one underscore whatever its width.
\<close>

definition allowed_byte :: "nat \<Rightarrow> bool" where
  "allowed_byte b \<longleftrightarrow>
     (97 \<le> b \<and> b \<le> 122) \<or> (65 \<le> b \<and> b \<le> 90) \<or> (48 \<le> b \<and> b \<le> 57) \<or>
     b = 43 \<or> b = 61 \<or> b = 44 \<or> b = 46 \<or> b = 64 \<or> b = 95 \<or> b = 45"

definition in_range :: "nat \<Rightarrow> nat \<Rightarrow> nat \<Rightarrow> bool" where
  "in_range lo hi b \<longleftrightarrow> lo \<le> b \<and> b \<le> hi"

text \<open>The width in bytes of the first rune of a byte string, as \<open>utf8.DecodeRune\<close> reports it.\<close>

fun rune_width :: "nat list \<Rightarrow> nat" where
  "rune_width [] = 0"
| "rune_width (b0 # bs) =
     (if in_range 194 223 b0 then
        (case bs of
           b1 # _ \<Rightarrow> if in_range 128 191 b1 then 2 else 1
         | _ \<Rightarrow> 1)
      else if in_range 224 239 b0 then
        (case bs of
           b1 # b2 # _ \<Rightarrow>
             if in_range (if b0 = 224 then 160 else 128) (if b0 = 237 then 159 else 191) b1
                \<and> in_range 128 191 b2
             then 3 else 1
         | _ \<Rightarrow> 1)
      else if in_range 240 244 b0 then
        (case bs of
           b1 # b2 # b3 # _ \<Rightarrow>
             if in_range (if b0 = 240 then 144 else 128) (if b0 = 244 then 143 else 191) b1
                \<and> in_range 128 191 b2 \<and> in_range 128 191 b3
             then 4 else 1
         | _ \<Rightarrow> 1)
      else 1)"

text \<open>
  \<open>replace_runes skip s\<close> rewrites \<open>s\<close>, the first \<open>skip\<close> bytes being the tail of
  a rune that has already been replaced.
\<close>

fun replace_runes :: "nat \<Rightarrow> string \<Rightarrow> string" where
  "replace_runes skip [] = []"
| "replace_runes skip (c # cs) =
     (case skip of
        Suc k \<Rightarrow> replace_runes k cs
      | 0 \<Rightarrow>
         (if rune_width (map of_char (c # cs)) = 1 \<and> allowed_byte (of_char c)
          then c # replace_runes 0 cs
          else CHR ''_'' # replace_runes (rune_width (map of_char (c # cs)) - 1) cs))"

definition normalizeDisplayName :: "string \<Rightarrow> string" where
  "normalizeDisplayName displayName = replace_runes 0 displayName"

definition genUsername ::
  "template_engine \<Rightarrow> string \<Rightarrow> string \<Rightarrow> string \<Rightarrow> string \<Rightarrow> err + string" where
  "genUsername te displayName policyName userType usernameTemplate =
     (if userType = ''iam_user'' \<or> userType = ''assume_role'' then
        (case NewTemplate te usernameTemplate of
           Some e \<Rightarrow> Inl (Errorf ''unable to initialize username template'' e)
         | None \<Rightarrow>
            (case Generate te usernameTemplate
                    \<lparr>Type = ''IAM'',
                     DisplayName = normalizeDisplayName displayName,
                     PolicyName = normalizeDisplayName policyName\<rparr> of
               Inl e \<Rightarrow> Inl (Errorf ''failed to generate username'' e)
             | Inr ret \<Rightarrow>
                 if length ret > 64 then
                   Inl (ErrorMsg ''the username generated by the template exceeds the IAM username length limits of 64 chars'')
                 else Inr ret))
      else if userType = ''sts'' then
        (case NewTemplate te usernameTemplate of
           Some e \<Rightarrow> Inl (Errorf ''unable to initialize username template'' e)
         | None \<Rightarrow>
            (case Generate te usernameTemplate
                    \<lparr>Type = ''STS'', DisplayName = [], PolicyName = []\<rparr> of
               Inl e \<Rightarrow> Inl (Errorf ''failed to generate username'' e)
             | Inr ret \<Rightarrow>
                 if length ret > 32 then
                   Inl (ErrorMsg ''the username generated by the template exceeds the STS username length limits of 32 chars'')
                 else Inr ret))
      else Inr [])"

subsection \<open>Roles, secrets and responses\<close>

text \<open>
  The role entry and the root configuration are declared outside this file; the records
  have the fields that the file reads. \<open>IAMTags\<close> is a Go map: the list gives its
  pairs in the order in which the \<open>range\<close> loop visits them.
\<close>

record awsRoleEntry =
  PolicyArns :: "string list"
  PolicyDocument :: string
  IAMGroups :: "string list"
  IAMTags :: "(string \<times> string) list"
  UserPath :: string
  PermissionsBoundaryARN :: string

record rootConfig =
  UsernameTemplate :: string

record configLease =
  Lease :: int
  LeaseMax :: int

record walUser =
  UserName :: string

text \<open>A value of Go's \<open>interface{}\<close>, as stored in a secret's data.\<close>

datatype val = VNil | VBool bool | VStr string | VNum int | VRole awsRoleEntry

text \<open>The type assertions \<open>v.(bool)\<close> and \<open>v.(string)\<close>.\<close>

fun as_bool :: "val \<Rightarrow> bool option" where
  "as_bool (VBool b) = Some b"
| "as_bool _ = None"

fun as_string :: "val \<Rightarrow> string option" where
  "as_string (VStr x) = Some x"
| "as_string _ = None"

record secret =
  TTL :: int
  MaxTTL :: int
  Renewable :: bool
  InternalData :: "string \<rightharpoonup> val"

record response =
  Secret :: "secret option"
  Data :: "(string \<times> val) list"

text \<open>A call returns Go's pair of a response pointer and an error.\<close>

type_synonym result = "response option \<times> err option"

definition ErrorResponse :: "string \<Rightarrow> response" where
  "ErrorResponse text = \<lparr>Secret = None, Data = [(''error'', VStr text)]\<rparr>"

text \<open>
  Modelled from the spec: the framework's \<open>IsError\<close>, which is not in this file. A
  response is an error response when its data has an \<open>error\<close> entry that is not nil
  and nothing else, or nothing else but a \<open>data\<close> entry that is not nil.
\<close>

definition has_entry :: "(string \<times> val) list \<Rightarrow> string \<Rightarrow> bool" where
  "has_entry d k = (case map_of d k of None \<Rightarrow> False | Some v \<Rightarrow> v \<noteq> VNil)"

definition IsError :: "response \<Rightarrow> bool" where
  "IsError r =
     (has_entry (Data r) ''error'' \<and>
      (length (Data r) = 1 \<or> (has_entry (Data r) ''data'' \<and> length (Data r) = 2)))"

text \<open>
  An error is surfaced to the caller when the Go error is set or the response is an
  error response.
\<close>

definition surfaced_error :: "result \<Rightarrow> bool" where
  "surfaced_error r =
     (case snd r of
        Some e \<Rightarrow> True
      | None \<Rightarrow> (case fst r of Some resp \<Rightarrow> IsError resp | None \<Rightarrow> False))"

definition returned_secret :: "result \<Rightarrow> secret option" where
  "returned_secret r = (case fst r of Some resp \<Rightarrow> Secret resp | None \<Rightarrow> None)"

text \<open>
  The framework's description of a secret type. \<open>secretAccessKeys\<close> sets the type
  name and both callbacks and leaves the default duration at zero.
\<close>

record framework_Secret =
  SecretType :: string
  DefaultDuration :: int
  HasRenew :: bool

definition secretAccessKeyType :: string where
  "secretAccessKeyType = ''access_keys''"

definition storageKey :: string where
  "storageKey = ''config/root''"

definition secretAccessKeys :: framework_Secret where
  "secretAccessKeys =
     \<lparr>SecretType = secretAccessKeyType, DefaultDuration = 0, HasRenew = True\<rparr>"

text \<open>
  Modelled from the spec: the framework's \<open>Secret.Response\<close>, which is not in this
  file. It populates a Secret from the public fields and the internal metadata. The
  metadata is copied and, as the framework does, tagged with the secret type; the lease
  starts from the framework default and is renewable when a renew callback is
  registered. Every strategy overwrites the lease fields that matter to it.
\<close>

definition Secret_Response ::
  "framework_Secret \<Rightarrow> (string \<times> val) list \<Rightarrow> (string \<rightharpoonup> val) \<Rightarrow> response" where
  "Secret_Response fs data internal =
     \<lparr>Secret = Some \<lparr>TTL = DefaultDuration fs, MaxTTL = 0, Renewable = HasRenew fs,
                     InternalData = internal(''secret_type'' \<mapsto> VStr (SecretType fs))\<rparr>,
      Data = data\<rparr>"

text \<open>An assignment to a field of \<open>resp.Secret\<close>.\<close>

definition update_Secret :: "(secret \<Rightarrow> secret) \<Rightarrow> response \<Rightarrow> response" where
  "update_Secret f resp = resp\<lparr>Secret := map_option f (Secret resp)\<rparr>"

subsection \<open>Provider requests and answers\<close>

datatype PolicyDescriptorType = Arn string

definition convertPolicyARNs :: "string list \<Rightarrow> PolicyDescriptorType list" where
  "convertPolicyARNs policyARNs = map Arn policyARNs"

record CreateUserInput =
  cu_UserName :: string
  cu_Path :: string
  cu_PermissionsBoundary :: "string option"

record GetFederationTokenInput =
  ft_Name :: string
  ft_DurationSeconds :: int
  ft_Policy :: "string option"
  ft_PolicyArns :: "PolicyDescriptorType list option"

record GetSessionTokenInput =
  st_DurationSeconds :: int
  st_SerialNumber :: "string option"
  st_TokenCode :: "string option"

record AssumeRoleInput =
  ar_RoleSessionName :: string
  ar_RoleArn :: string
  ar_DurationSeconds :: int
  ar_Policy :: "string option"
  ar_PolicyArns :: "PolicyDescriptorType list option"

text \<open>
  The answers of the provider, with the fields that the file dereferences. Instants are
  nanoseconds since the epoch.
\<close>

record Credentials =
  AccessKeyId :: string
  SecretAccessKey :: string
  SessionToken :: string
  Expiration :: int

record AssumeRoleOutput =
  ar_Credentials :: Credentials
  AssumedRoleUserArn :: string

record AccessKey =
  ak_AccessKeyId :: string
  ak_SecretAccessKey :: string

subsection \<open>Calls, the environment and the world\<close>

text \<open>
  Every call to a collaborator is recorded, with its arguments, in the order in which
  the calls are made. The calls that change the write-ahead log or the provider's
  principals record their outcome too: the error, if the call failed.
\<close>

datatype event =
    EvClientIAM
  | EvClientSTS
  | EvStorageGet string
  | EvGetGroupPolicies "string list"
  | EvPutWAL string walUser "err + string"
  | EvDeleteWAL string "err option"
  | EvCreateUser CreateUserInput "err option"
  | EvAttachUserPolicy string string "err option"
  | EvPutUserPolicy string string string "err option"
  | EvAddUserToGroup string string "err option"
  | EvTagUser string "(string \<times> string) list" "err option"
  | EvCreateAccessKey string "err option"
  | EvGetFederationToken GetFederationTokenInput
  | EvGetSessionToken GetSessionTokenInput
  | EvAssumeRole AssumeRoleInput
  | EvLease
  | EvPathUserRollback string "(string \<times> val) list"
  | EvTimeNow

type_synonym history = "event list"

record env =
  engine :: "history \<Rightarrow> template_engine"
  defaultUserNameTemplate :: string
  clientIAM :: "history \<Rightarrow> err option"
  clientSTS :: "history \<Rightarrow> err option"
  storage_Get :: "history \<Rightarrow> string \<Rightarrow> err + string option"
  DecodeJSON :: "string \<Rightarrow> err + rootConfig"
  getGroupPolicies :: "history \<Rightarrow> string list \<Rightarrow> err + (string list option \<times> string list)"
  combinePolicyDocuments :: "string list \<Rightarrow> err + string"
  storage_PutWAL :: "history \<Rightarrow> err + string"
  storage_DeleteWAL :: "history \<Rightarrow> string \<Rightarrow> err option"
  CreateUser :: "history \<Rightarrow> CreateUserInput \<Rightarrow> err option"
  AttachUserPolicy :: "history \<Rightarrow> string \<Rightarrow> string \<Rightarrow> err option"
  PutUserPolicy :: "history \<Rightarrow> string \<Rightarrow> string \<Rightarrow> string \<Rightarrow> err option"
  AddUserToGroup :: "history \<Rightarrow> string \<Rightarrow> string \<Rightarrow> err option"
  TagUser :: "history \<Rightarrow> string \<Rightarrow> (string \<times> string) list \<Rightarrow> err option"
  CreateAccessKey :: "history \<Rightarrow> string \<Rightarrow> err + AccessKey"
  GetFederationToken :: "history \<Rightarrow> GetFederationTokenInput \<Rightarrow> err + Credentials"
  GetSessionToken :: "history \<Rightarrow> GetSessionTokenInput \<Rightarrow> err + Credentials"
  AssumeRole :: "history \<Rightarrow> AssumeRoleInput \<Rightarrow> err + AssumeRoleOutput"
  CheckAWSError :: "err \<Rightarrow> err option"
  backend_Lease :: "history \<Rightarrow> err + configLease option"
  pathUserRollback :: "history \<Rightarrow> string \<Rightarrow> (string \<times> val) list \<Rightarrow> err option"
  time_Now :: "history \<Rightarrow> int"
  Seconds_uint64 :: "int \<Rightarrow> int"

text \<open>
  The world that a request changes: the entries of the write-ahead log, by identifier,
  and the calls made so far.
\<close>

record world =
  wal :: "string \<rightharpoonup> (string \<times> walUser)"
  trace :: history

definition emit :: "event \<Rightarrow> world \<Rightarrow> world" where
  "emit ev s = s\<lparr>trace := trace s @ [ev]\<rparr>"

text \<open>
  Modelled from the spec: the ledger operations \<open>framework.PutWAL\<close> (begin) and
  \<open>framework.DeleteWAL\<close> (commit), which are not in this file. A successful begin
  persists the entry under a ledger identifier assigned at write time; a successful
  delete removes it; a failed call leaves the ledger as it was.
\<close>

definition PutWAL :: "env \<Rightarrow> string \<Rightarrow> walUser \<Rightarrow> world \<Rightarrow> (err + string) \<times> world" where
  "PutWAL ev kind entry s =
     (case storage_PutWAL ev (trace s) of
        Inl e \<Rightarrow> (Inl e, emit (EvPutWAL kind entry (Inl e)) s)
      | Inr walID \<Rightarrow>
          (Inr walID,
           emit (EvPutWAL kind entry (Inr walID)) (s\<lparr>wal := (wal s)(walID \<mapsto> (kind, entry))\<rparr>)))"

definition DeleteWAL :: "env \<Rightarrow> string \<Rightarrow> world \<Rightarrow> err option \<times> world" where
  "DeleteWAL ev walID s =
     (case storage_DeleteWAL ev (trace s) walID of
        Some e \<Rightarrow> (Some e, emit (EvDeleteWAL walID (Some e)) s)
      | None \<Rightarrow> (None, emit (EvDeleteWAL walID None) (s\<lparr>wal := (wal s)(walID := None)\<rparr>)))"

text \<open>
  \<open>time.Until t\<close> is \<open>t.Sub(time.Now())\<close>. A Duration is a signed 64-bit count of
  nanoseconds and \<open>Sub\<close> saturates at its bounds.
\<close>

definition minDuration :: int where
  "minDuration = - (2 ^ 63)"

definition maxDuration :: int where
  "maxDuration = 2 ^ 63 - 1"

definition time_Sub :: "int \<Rightarrow> int \<Rightarrow> int" where
  "time_Sub t u =
     (if t - u < minDuration then minDuration
      else if maxDuration < t - u then maxDuration
      else t - u)"

definition time_Until :: "env \<Rightarrow> int \<Rightarrow> world \<Rightarrow> int \<times> world" where
  "time_Until ev t s = (time_Sub t (time_Now ev (trace s)), emit EvTimeNow s)"

text \<open>Modelled from the spec: the credential-type name, a constant declared outside this file.\<close>

definition federationTokenCred :: string where
  "federationTokenCred = ''federation_token''"

definition readConfig :: "env \<Rightarrow> world \<Rightarrow> (err + rootConfig) \<times> world" where
  "readConfig ev s =
     (case storage_Get ev (trace s) storageKey of
        Inl e \<Rightarrow> (Inl e, emit (EvStorageGet storageKey) s)
      | Inr None \<Rightarrow> (Inr \<lparr>UsernameTemplate = []\<rparr>, emit (EvStorageGet storageKey) s)
      | Inr (Some entry) \<Rightarrow>
          (case DecodeJSON ev entry of
             Inl e \<Rightarrow> (Inl e, emit (EvStorageGet storageKey) s)
           | Inr connConfig \<Rightarrow> (Inr connConfig, emit (EvStorageGet storageKey) s)))"

subsection \<open>The three ephemeral strategies\<close>

text \<open>
  The requests to the provider. An optional field is set only when its value is not
  empty (lines 141 to 150, 205 to 213 and 287 to 297 of the source).
\<close>

definition federationTokenInput ::
  "string \<Rightarrow> int \<Rightarrow> string \<Rightarrow> string list \<Rightarrow> GetFederationTokenInput" where
  "federationTokenInput username lifeTimeInSeconds policy policyARNs =
     \<lparr>ft_Name = username, ft_DurationSeconds = lifeTimeInSeconds,
      ft_Policy = (if length policy > 0 then Some policy else None),
      ft_PolicyArns =
        (if length policyARNs > 0 then Some (convertPolicyARNs policyARNs) else None)\<rparr>"

definition sessionTokenInput :: "string \<Rightarrow> string \<Rightarrow> int \<Rightarrow> GetSessionTokenInput" where
  "sessionTokenInput serialNumber mfaCode lifeTimeInSeconds =
     \<lparr>st_DurationSeconds = lifeTimeInSeconds,
      st_SerialNumber = (if serialNumber \<noteq> [] then Some serialNumber else None),
      st_TokenCode = (if mfaCode \<noteq> [] then Some mfaCode else None)\<rparr>"

definition assumeRoleInput ::
  "string \<Rightarrow> string \<Rightarrow> int \<Rightarrow> string \<Rightarrow> string list \<Rightarrow> AssumeRoleInput" where
  "assumeRoleInput roleSessionName roleArn lifeTimeInSeconds policy policyARNs =
     \<lparr>ar_RoleSessionName = roleSessionName, ar_RoleArn = roleArn,
      ar_DurationSeconds = lifeTimeInSeconds,
      ar_Policy = (if policy \<noteq> [] then Some policy else None),
      ar_PolicyArns =
        (if length policyARNs > 0 then Some (convertPolicyARNs policyARNs) else None)\<rparr>"

definition getFederationToken ::
  "env \<Rightarrow> string \<Rightarrow> string \<Rightarrow> string \<Rightarrow> string list \<Rightarrow> string list \<Rightarrow> int \<Rightarrow> world
     \<Rightarrow> result \<times> world" where
  "getFederationToken ev displayName policyName policy0 policyARNs0 iamGroups lifeTimeInSeconds s =
     (let s1 = emit (EvGetGroupPolicies iamGroups) s in
      case getGroupPolicies ev (trace s) iamGroups of
        Inl e \<Rightarrow> ((Some (ErrorResponse (error_text e)), None), s1)
      | Inr (groupPolicies, groupPolicyARNs) \<Rightarrow>
      (case (case groupPolicies of
               None \<Rightarrow> Inr policy0
             | Some gp \<Rightarrow> combinePolicyDocuments ev (gp @ [policy0])) of
        Inl e \<Rightarrow> ((Some (ErrorResponse (error_text e)), None), s1)
      | Inr policy \<Rightarrow>
      (let policyARNs =
             (if length groupPolicyARNs > 0 then policyARNs0 @ groupPolicyARNs else policyARNs0);
           s2 = emit EvClientSTS s1 in
       case clientSTS ev (trace s1) of
         Some e \<Rightarrow> ((Some (ErrorResponse (error_text e)), None), s2)
       | None \<Rightarrow>
       (case readConfig ev s2 of
          (Inl e, s3) \<Rightarrow> ((None, Some (Errorf ''unable to read configuration'' e)), s3)
        | (Inr config, s3) \<Rightarrow>
        (let usernameTemplate =
               (if UsernameTemplate config = [] then defaultUserNameTemplate ev
                else UsernameTemplate config) in
         case genUsername (engine ev (trace s3)) displayName policyName ''sts'' usernameTemplate of
           Inl usernameError \<Rightarrow> ((None, Some usernameError), s3)
         | Inr username \<Rightarrow>
         (let getTokenInput =
                federationTokenInput username lifeTimeInSeconds policy policyARNs in
          if policy = [] \<and> length policyARNs = 0 then
            ((Some (ErrorResponse
                (''must specify at least one of policy_arns or policy_document with ''
                 @ federationTokenCred @ '' credential_type'')), None), s3)
          else
          (let s4 = emit (EvGetFederationToken getTokenInput) s3 in
           case GetFederationToken ev (trace s3) getTokenInput of
             Inl e \<Rightarrow>
               ((Some (ErrorResponse (''Error generating STS keys: '' @ error_text e)),
                 CheckAWSError ev e), s4)
           | Inr creds \<Rightarrow>
           (case time_Until ev (Expiration creds) s4 of
              (ttl, s5) \<Rightarrow>
              (let resp = Secret_Response secretAccessKeys
                     [(''access_key'', VStr (AccessKeyId creds)),
                      (''secret_key'', VStr (SecretAccessKey creds)),
                      (''security_token'', VStr (SessionToken creds)),
                      (''session_token'', VStr (SessionToken creds)),
                      (''ttl'', VNum (Seconds_uint64 ev ttl))]
                     [''username'' \<mapsto> VStr username,
                      ''policy'' \<mapsto> VStr policy,
                      ''is_sts'' \<mapsto> VBool True];
                   resp1 = update_Secret (\<lambda>x. x\<lparr>TTL := ttl\<rparr>) resp;
                   resp2 = update_Secret (\<lambda>x. x\<lparr>Renewable := False\<rparr>) resp1
               in ((Some resp2, None), s5))))))))))"

definition getSessionToken ::
  "env \<Rightarrow> string \<Rightarrow> string \<Rightarrow> int \<Rightarrow> world \<Rightarrow> result \<times> world" where
  "getSessionToken ev serialNumber mfaCode lifeTimeInSeconds s =
     (let s1 = emit EvClientSTS s in
      case clientSTS ev (trace s) of
        Some e \<Rightarrow> ((Some (ErrorResponse (error_text e)), None), s1)
      | None \<Rightarrow>
      (let getTokenInput = sessionTokenInput serialNumber mfaCode lifeTimeInSeconds;
           s2 = emit (EvGetSessionToken getTokenInput) s1 in
       case GetSessionToken ev (trace s1) getTokenInput of
         Inl e \<Rightarrow>
           ((Some (ErrorResponse (''Error generating STS keys: '' @ error_text e)),
             CheckAWSError ev e), s2)
       | Inr creds \<Rightarrow>
       (case time_Until ev (Expiration creds) s2 of
          (ttl, s3) \<Rightarrow>
          (let resp = Secret_Response secretAccessKeys
                 [(''access_key'', VStr (AccessKeyId creds)),
                  (''secret_key'', VStr (SecretAccessKey creds)),
                  (''session_token'', VStr (SessionToken creds)),
                  (''ttl'', VNum (Seconds_uint64 ev ttl))]
                 [''is_sts'' \<mapsto> VBool True] in
           case time_Until ev (Expiration creds) s3 of
             (ttl', s4) \<Rightarrow>
             (let resp1 = update_Secret (\<lambda>x. x\<lparr>TTL := ttl'\<rparr>) resp;
                  resp2 = update_Secret (\<lambda>x. x\<lparr>Renewable := False\<rparr>) resp1
              in ((Some resp2, None), s4))))))"

definition assumeRole ::
  "env \<Rightarrow> string \<Rightarrow> string \<Rightarrow> string \<Rightarrow> string \<Rightarrow> string list \<Rightarrow> string list \<Rightarrow> int \<Rightarrow> string
     \<Rightarrow> world \<Rightarrow> result \<times> world" where
  "assumeRole ev displayName roleName roleArn policy0 policyARNs0 iamGroups lifeTimeInSeconds
       roleSessionName0 s =
     (let s1 = emit (EvGetGroupPolicies iamGroups) s in
      case getGroupPolicies ev (trace s) iamGroups of
        Inl e \<Rightarrow> ((Some (ErrorResponse (error_text e)), None), s1)
      | Inr (groupPolicies, groupPolicyARNs) \<Rightarrow>
      (case (case groupPolicies of
               None \<Rightarrow> Inr policy0
             | Some gp \<Rightarrow>
                 if length gp > 0 then combinePolicyDocuments ev (gp @ [policy0])
                 else Inr policy0) of
        Inl e \<Rightarrow> ((Some (ErrorResponse (error_text e)), None), s1)
      | Inr policy \<Rightarrow>
      (let policyARNs =
             (if length groupPolicyARNs > 0 then policyARNs0 @ groupPolicyARNs else policyARNs0);
           s2 = emit EvClientSTS s1 in
       case clientSTS ev (trace s1) of
         Some e \<Rightarrow> ((Some (ErrorResponse (error_text e)), None), s2)
       | None \<Rightarrow>
       (case readConfig ev s2 of
          (Inl e, s3) \<Rightarrow> ((None, Some (Errorf ''unable to read configuration'' e)), s3)
        | (Inr config, s3) \<Rightarrow>
        (let usernameTemplate =
               (if UsernameTemplate config = [] then defaultUserNameTemplate ev
                else UsernameTemplate config) in
         case (if roleSessionName0 = [] then
                 genUsername (engine ev (trace s3)) displayName roleName ''assume_role''
                   usernameTemplate
               else Inr (normalizeDisplayName roleSessionName0)) of
           Inl roleSessionNameError \<Rightarrow> ((None, Some roleSessionNameError), s3)
         | Inr roleSessionName \<Rightarrow>
         (let input =
                assumeRoleInput roleSessionName roleArn lifeTimeInSeconds policy policyARNs;
              s4 = emit (EvAssumeRole input) s3 in
          case AssumeRole ev (trace s3) input of
            Inl e \<Rightarrow>
              ((Some (ErrorResponse (''Error assuming role: '' @ error_text e)),
                CheckAWSError ev e), s4)
          | Inr tokenResp \<Rightarrow>
          (case time_Until ev (Expiration (ar_Credentials tokenResp)) s4 of
             (ttl, s5) \<Rightarrow>
             (let creds = ar_Credentials tokenResp;
                  resp = Secret_Response secretAccessKeys
                    [(''access_key'', VStr (AccessKeyId creds)),
                     (''secret_key'', VStr (SecretAccessKey creds)),
                     (''security_token'', VStr (SessionToken creds)),
                     (''session_token'', VStr (SessionToken creds)),
                     (''arn'', VStr (AssumedRoleUserArn tokenResp)),
                     (''ttl'', VNum (Seconds_uint64 ev ttl))]
                    [''username'' \<mapsto> VStr roleSessionName,
                     ''policy'' \<mapsto> VStr roleArn,
                     ''is_sts'' \<mapsto> VBool True];
                  resp1 = update_Secret (\<lambda>x. x\<lparr>TTL := ttl\<rparr>) resp;
                  resp2 = update_Secret (\<lambda>x. x\<lparr>Renewable := False\<rparr>) resp1
              in ((Some resp2, None), s5)))))))))"

subsection \<open>The durable-user strategy\<close>

text \<open>
  The request that creates the principal: the path defaults to the root and the
  permissions boundary is set only when the role has one (lines 384 to 395).
\<close>

definition createUserRequest :: "string \<Rightarrow> awsRoleEntry \<Rightarrow> CreateUserInput" where
  "createUserRequest username role =
     \<lparr>cu_UserName = username,
      cu_Path = (if UserPath role = [] then ''/'' else UserPath role),
      cu_PermissionsBoundary =
        (if PermissionsBoundaryARN role \<noteq> [] then Some (PermissionsBoundaryARN role)
         else None)\<rparr>"

text \<open>
  The two loops of \<open>secretAccessKeysCreate\<close>. Each stops at the first failing call and
  hands the provider's error back.
\<close>

fun attach_policies :: "env \<Rightarrow> string \<Rightarrow> string list \<Rightarrow> world \<Rightarrow> err option \<times> world" where
  "attach_policies ev username [] s = (None, s)"
| "attach_policies ev username (arn # arns) s =
     (case AttachUserPolicy ev (trace s) username arn of
        Some e \<Rightarrow> (Some e, emit (EvAttachUserPolicy username arn (Some e)) s)
      | None \<Rightarrow> attach_policies ev username arns (emit (EvAttachUserPolicy username arn None) s))"

fun add_to_groups :: "env \<Rightarrow> string \<Rightarrow> string list \<Rightarrow> world \<Rightarrow> err option \<times> world" where
  "add_to_groups ev username [] s = (None, s)"
| "add_to_groups ev username (g # gs) s =
     (case AddUserToGroup ev (trace s) username g of
        Some e \<Rightarrow> (Some e, emit (EvAddUserToGroup username g (Some e)) s)
      | None \<Rightarrow> add_to_groups ev username gs (emit (EvAddUserToGroup username g None) s))"

text \<open>
  The steps after the principal exists: attach each policy ARN, put the inline policy,
  add to each group, tag, mint the access key, commit the ledger entry and build the
  Secret (lines 407 to 494 of the source).
\<close>

definition provision_user ::
  "env \<Rightarrow> string \<Rightarrow> string \<Rightarrow> awsRoleEntry \<Rightarrow> string \<Rightarrow> world \<Rightarrow> result \<times> world" where
  "provision_user ev username policyName role walID s =
     (case attach_policies ev username (PolicyArns role) s of
        (Some e, s1) \<Rightarrow>
          ((Some (ErrorResponse (''Error attaching user policy: '' @ error_text e)),
            CheckAWSError ev e), s1)
      | (None, s1) \<Rightarrow>
      (case (if PolicyDocument role \<noteq> [] then
               (PutUserPolicy ev (trace s1) username policyName (PolicyDocument role),
                emit (EvPutUserPolicy username policyName (PolicyDocument role)
                        (PutUserPolicy ev (trace s1) username policyName (PolicyDocument role))) s1)
             else (None, s1)) of
        (Some e, s2) \<Rightarrow>
          ((Some (ErrorResponse (''Error putting user policy: '' @ error_text e)),
            CheckAWSError ev e), s2)
      | (None, s2) \<Rightarrow>
      (case add_to_groups ev username (IAMGroups role) s2 of
        (Some e, s3) \<Rightarrow>
          ((Some (ErrorResponse (''Error adding user to group: '' @ error_text e)),
            CheckAWSError ev e), s3)
      | (None, s3) \<Rightarrow>
      (let tags = IAMTags role in
       case (if length tags > 0 then
               (TagUser ev (trace s3) username tags,
                emit (EvTagUser username tags (TagUser ev (trace s3) username tags)) s3)
             else (None, s3)) of
        (Some e, s4) \<Rightarrow>
          ((Some (ErrorResponse (''Error adding tags to user: '' @ error_text e)),
            CheckAWSError ev e), s4)
      | (None, s4) \<Rightarrow>
      (let s5 = emit (EvCreateAccessKey username
                        (case CreateAccessKey ev (trace s4) username of
                           Inl e \<Rightarrow> Some e | Inr k \<Rightarrow> None)) s4 in
       case CreateAccessKey ev (trace s4) username of
         Inl e \<Rightarrow>
           ((Some (ErrorResponse (''Error creating access keys: '' @ error_text e)),
             CheckAWSError ev e), s5)
       | Inr keyResp \<Rightarrow>
       (case DeleteWAL ev walID s5 of
          (Some e, s6) \<Rightarrow> ((None, Some (Errorf ''failed to commit WAL entry'' e)), s6)
        | (None, s6) \<Rightarrow>
        (let resp = Secret_Response secretAccessKeys
               [(''access_key'', VStr (ak_AccessKeyId keyResp)),
                (''secret_key'', VStr (ak_SecretAccessKey keyResp)),
                (''session_token'', VNil)]
               [''username'' \<mapsto> VStr username,
                ''policy'' \<mapsto> VRole role,
                ''is_sts'' \<mapsto> VBool False];
             s7 = emit EvLease s6;
             lease = (case backend_Lease ev (trace s6) of
                        Inl e \<Rightarrow> \<lparr>Lease = 0, LeaseMax = 0\<rparr>
                      | Inr None \<Rightarrow> \<lparr>Lease = 0, LeaseMax = 0\<rparr>
                      | Inr (Some l) \<Rightarrow> l);
             resp1 = update_Secret (\<lambda>x. x\<lparr>TTL := Lease lease\<rparr>) resp;
             resp2 = update_Secret (\<lambda>x. x\<lparr>MaxTTL := LeaseMax lease\<rparr>) resp1
         in ((Some resp2, None), s7))))))))"

definition secretAccessKeysCreate ::
  "env \<Rightarrow> string \<Rightarrow> string \<Rightarrow> awsRoleEntry \<Rightarrow> world \<Rightarrow> result \<times> world" where
  "secretAccessKeysCreate ev displayName policyName role s =
     (let s1 = emit EvClientIAM s in
      case clientIAM ev (trace s) of
        Some e \<Rightarrow> ((Some (ErrorResponse (error_text e)), None), s1)
      | None \<Rightarrow>
      (case readConfig ev s1 of
         (Inl e, s2) \<Rightarrow> ((None, Some (Errorf ''unable to read configuration'' e)), s2)
       | (Inr config, s2) \<Rightarrow>
       (let usernameTemplate =
              (if UsernameTemplate config = [] then defaultUserNameTemplate ev
               else UsernameTemplate config) in
        case genUsername (engine ev (trace s2)) displayName policyName ''iam_user''
               usernameTemplate of
          Inl usernameError \<Rightarrow> ((None, Some usernameError), s2)
        | Inr username \<Rightarrow>
        (case PutWAL ev ''user'' \<lparr>UserName = username\<rparr> s2 of
           (Inl e, s3) \<Rightarrow> ((None, Some (Errorf ''error writing WAL entry'' e)), s3)
         | (Inr walID, s3) \<Rightarrow>
         (let request = createUserRequest username role;
              s4 = emit (EvCreateUser request (CreateUser ev (trace s3) request)) s3 in
          case CreateUser ev (trace s3) request of
            Some e \<Rightarrow>
              (case DeleteWAL ev walID s4 of
                 (Some walErr, s5) \<Rightarrow>
                   ((None, Some (ErrWrap (Errorf ''failed to delete WAL entry'' walErr)
                                         (Errorf ''error creating IAM user'' e))), s5)
               | (None, s5) \<Rightarrow>
                   ((Some (ErrorResponse (''Error creating IAM user: '' @ error_text e)),
                     CheckAWSError ev e), s5))
          | None \<Rightarrow> provision_user ev username policyName role walID s4)))))"

subsection \<open>Renew and revoke\<close>

definition secretAccessKeysRenew :: "env \<Rightarrow> secret \<Rightarrow> world \<Rightarrow> result \<times> world" where
  "secretAccessKeysRenew ev sec s =
     (case (case InternalData sec ''is_sts'' of
              Some isSTSRaw \<Rightarrow>
                (case as_bool isSTSRaw of
                   Some isSTS \<Rightarrow> if isSTS then Some (None, None) else None
                 | None \<Rightarrow> None)
            | None \<Rightarrow> None) of
        Some early \<Rightarrow> (early, s)
      | None \<Rightarrow>
      (let s1 = emit EvLease s in
       case backend_Lease ev (trace s) of
         Inl e \<Rightarrow> ((None, Some e), s1)
       | Inr l \<Rightarrow>
       (let lease = (case l of None \<Rightarrow> \<lparr>Lease = 0, LeaseMax = 0\<rparr> | Some c \<Rightarrow> c);
            sec1 = sec\<lparr>TTL := Lease lease\<rparr>;
            sec2 = sec1\<lparr>MaxTTL := LeaseMax lease\<rparr>
        in ((Some \<lparr>Secret = Some sec2, Data = []\<rparr>, None), s1))))"

definition secretAccessKeysRevoke :: "env \<Rightarrow> secret \<Rightarrow> world \<Rightarrow> result \<times> world" where
  "secretAccessKeysRevoke ev sec s =
     (case (case InternalData sec ''is_sts'' of
              Some isSTSRaw \<Rightarrow>
                (case as_bool isSTSRaw of
                   Some isSTS \<Rightarrow> if isSTS then Some (None, None) else None
                 | None \<Rightarrow>
                     Some (None, Some (ErrorMsg ''secret has is_sts but value could not be understood'')))
            | None \<Rightarrow> None) of
        Some early \<Rightarrow> (early, s)
      | None \<Rightarrow>
      (case InternalData sec ''username'' of
         None \<Rightarrow> ((None, Some (ErrorMsg ''secret is missing username internal data'')), s)
       | Some usernameRaw \<Rightarrow>
       (case as_string usernameRaw of
          None \<Rightarrow> ((None, Some (ErrorMsg ''secret is missing username internal data'')), s)
        | Some username \<Rightarrow>
        (let s1 = emit (EvPathUserRollback ''user'' [(''username'', VStr username)]) s in
         case pathUserRollback ev (trace s) ''user'' [(''username'', VStr username)] of
           Some e \<Rightarrow> ((None, Some e), s1)
         | None \<Rightarrow> ((None, None), s1)))))"

subsection \<open>Reading the record of calls\<close>

text \<open>The calls that change a principal at the provider, and the principal they name.\<close>

fun mutating :: "event \<Rightarrow> bool" where
  "mutating (EvCreateUser i r) = True"
| "mutating (EvAttachUserPolicy u a r) = True"
| "mutating (EvPutUserPolicy u n d r) = True"
| "mutating (EvAddUserToGroup u g r) = True"
| "mutating (EvTagUser u t r) = True"
| "mutating (EvCreateAccessKey u r) = True"
| "mutating _ = False"

fun event_user :: "event \<Rightarrow> string" where
  "event_user (EvCreateUser i r) = cu_UserName i"
| "event_user (EvAttachUserPolicy u a r) = u"
| "event_user (EvPutUserPolicy u n d r) = u"
| "event_user (EvAddUserToGroup u g r) = u"
| "event_user (EvTagUser u t r) = u"
| "event_user (EvCreateAccessKey u r) = u"
| "event_user _ = []"

text \<open>
  \<open>wal_guarded logged evs\<close>: walking through \<open>evs\<close>, every mutating call names a
  principal for which a ledger entry has been written successfully before, \<open>logged\<close>
  being the principals with such an entry at the start.
\<close>

fun wal_guarded :: "string list \<Rightarrow> event list \<Rightarrow> bool" where
  "wal_guarded logged [] = True"
| "wal_guarded logged (EvPutWAL kind w (Inr walID) # evs) = wal_guarded (UserName w # logged) evs"
| "wal_guarded logged (e # evs) =
     (if mutating e then event_user e \<in> set logged \<and> wal_guarded logged evs
      else wal_guarded logged evs)"

text \<open>A provisioning step after the creation of the principal, and such a step that failed.\<close>

fun later_step :: "event \<Rightarrow> bool" where
  "later_step (EvAttachUserPolicy u a r) = True"
| "later_step (EvPutUserPolicy u n d r) = True"
| "later_step (EvAddUserToGroup u g r) = True"
| "later_step (EvTagUser u t r) = True"
| "later_step (EvCreateAccessKey u r) = True"
| "later_step _ = False"

fun outcome :: "event \<Rightarrow> err option" where
  "outcome (EvCreateUser i r) = r"
| "outcome (EvAttachUserPolicy u a r) = r"
| "outcome (EvPutUserPolicy u n d r) = r"
| "outcome (EvAddUserToGroup u g r) = r"
| "outcome (EvTagUser u t r) = r"
| "outcome (EvCreateAccessKey u r) = r"
| "outcome (EvDeleteWAL i r) = r"
| "outcome (EvPutWAL k w r) = (case r of Inl e \<Rightarrow> Some e | Inr i \<Rightarrow> None)"
| "outcome _ = None"

definition failed_step :: "event \<Rightarrow> bool" where
  "failed_step e \<longleftrightarrow> later_step e \<and> outcome e \<noteq> None"

fun is_DeleteWAL :: "event \<Rightarrow> bool" where
  "is_DeleteWAL (EvDeleteWAL i r) = True"
| "is_DeleteWAL _ = False"


text \<open>
  A run of provisioning steps for one principal: \<open>steps_ok\<close> when every step
  succeeded, \<open>steps_failed\<close> when some step failed.
\<close>

definition steps_ok :: "string \<Rightarrow> event list \<Rightarrow> bool" where
  "steps_ok u evs = list_all (\<lambda>e. later_step e \<and> event_user e = u \<and> outcome e = None) evs"

definition steps_failed :: "string \<Rightarrow> event list \<Rightarrow> bool" where
  "steps_failed u evs =
     (list_all (\<lambda>e. later_step e \<and> event_user e = u) evs \<and> list_ex failed_step evs)"

text \<open>
  The message that the issuance puts in front of the error of a failed provisioning
  step (lines 414, 426, 437, 456 and 465 of the source).
\<close>

fun step_error_prefix :: "event \<Rightarrow> string" where
  "step_error_prefix (EvAttachUserPolicy u a r) = ''Error attaching user policy: ''"
| "step_error_prefix (EvPutUserPolicy u n d r) = ''Error putting user policy: ''"
| "step_error_prefix (EvAddUserToGroup u g r) = ''Error adding user to group: ''"
| "step_error_prefix (EvTagUser u t r) = ''Error adding tags to user: ''"
| "step_error_prefix (EvCreateAccessKey u r) = ''Error creating access keys: ''"
| "step_error_prefix _ = []"

text \<open>
  \<open>steps_failing u pfx e evs\<close>: the steps \<open>evs\<close> for the principal \<open>u\<close> all
  succeeded but the last one, which failed with the error \<open>e\<close> and is reported under
  the message \<open>pfx\<close>.
\<close>

definition steps_failing :: "string \<Rightarrow> string \<Rightarrow> err \<Rightarrow> event list \<Rightarrow> bool" where
  "steps_failing u pfx e evs =
     (\<exists>oks f. evs = oks @ [f] \<and> steps_ok u oks \<and> later_step f \<and> event_user f = u \<and>
        outcome f = Some e \<and> step_error_prefix f = pfx)"

text \<open>
  What a group of provisioning steps does to the world: the ledger is untouched and the
  calls made are steps for the principal, all successful when no error comes back, and
  otherwise ending with the step that failed with that error.
\<close>

definition step_result :: "string \<Rightarrow> string \<Rightarrow> world \<Rightarrow> err option \<Rightarrow> world \<Rightarrow> bool" where
  "step_result u pfx s r s' =
     (wal s' = wal s \<and>
      (\<exists>evs. trace s' = trace s @ evs \<and>
         (case r of None \<Rightarrow> steps_ok u evs | Some e \<Rightarrow> steps_failing u pfx e evs)))"

text \<open>
  The discipline of the write-ahead log, for the calls \<open>evs\<close> of one issuance that
  ended with the answer \<open>r\<close> in the world \<open>s'\<close>: no principal is changed before
  its ledger entry is written; a failed creation is followed at once by the deletion of
  the entry, and its error is returned; a failed later step leaves the entry in place
  and the answer is the error response made of that step's message and that step's
  error; a Secret is returned only after the entry is deleted; and an entry that is
  still there comes with a surfaced error.
\<close>

definition wal_discipline :: "env \<Rightarrow> world \<Rightarrow> result \<Rightarrow> world \<Rightarrow> event list \<Rightarrow> bool" where
  "wal_discipline ev s r s' evs \<longleftrightarrow>
     wal_guarded [] evs \<and>
     (\<forall>inp e. EvCreateUser inp (Some e) \<in> set evs \<longrightarrow>
        (\<exists>pre walID dl.
           evs = pre @ [EvPutWAL ''user'' \<lparr>UserName = cu_UserName inp\<rparr> (Inr walID),
                        EvCreateUser inp (Some e), EvDeleteWAL walID dl] \<and>
           (dl = None \<longrightarrow>
              wal s' walID = None \<and>
              r = (Some (ErrorResponse (''Error creating IAM user: '' @ error_text e)),
                   CheckAWSError ev e)) \<and>
           (\<forall>walErr. dl = Some walErr \<longrightarrow>
              r = (None, Some (ErrWrap (Errorf ''failed to delete WAL entry'' walErr)
                                       (Errorf ''error creating IAM user'' e)))))) \<and>
     (\<forall>f. f \<in> set evs \<and> failed_step f \<longrightarrow>
        (\<exists>e. outcome f = Some e \<and>
           r = (Some (ErrorResponse (step_error_prefix f @ error_text e)), CheckAWSError ev e)) \<and>
        surfaced_error r \<and> \<not> list_ex is_DeleteWAL evs \<and>
        (\<exists>walID u. EvPutWAL ''user'' \<lparr>UserName = u\<rparr> (Inr walID) \<in> set evs \<and>
           wal s' walID = Some (''user'', \<lparr>UserName = u\<rparr>))) \<and>
     (\<forall>sec. returned_secret r = Some sec \<longrightarrow>
        (\<exists>pre walID w.
           EvPutWAL ''user'' w (Inr walID) \<in> set pre \<and>
           evs = pre @ [EvDeleteWAL walID None, EvLease] \<and> wal s' walID = None)) \<and>
     (\<forall>walID w. EvPutWAL ''user'' w (Inr walID) \<in> set evs \<longrightarrow>
        wal s' walID = None \<or> surfaced_error r)"

subsection \<open>Concrete environments\<close>

text \<open>
  A template engine that renders a template without directives as its own text, and
  one that rejects every template.
\<close>

definition engine_literal :: template_engine where
  "engine_literal = \<lparr>NewTemplate = (\<lambda>t. None), Generate = (\<lambda>t um. Inr t)\<rparr>"

definition engine_broken :: template_engine where
  "engine_broken =
     \<lparr>NewTemplate = (\<lambda>t. Some (ExtErr ''unable to parse template'')),
      Generate = (\<lambda>t um. Inl (ExtErr ''no template''))\<rparr>"

text \<open>
  An environment in which every collaborator answers successfully: no root
  configuration is stored, the default template is a literal name, no group has
  policies, the lease is one hour with a maximum of one day. The count of whole seconds
  of a TTL drops the fraction and, as an unsigned 64-bit number, wraps when the TTL is
  negative.
\<close>

definition creds_ok :: Credentials where
  "creds_ok =
     \<lparr>AccessKeyId = ''ASIAEXAMPLE'', SecretAccessKey = ''s3cr3t'', SessionToken = ''tok'',
      Expiration = 3600000000000\<rparr>"

definition env_ok :: env where
  "env_ok =
     \<lparr>engine = (\<lambda>h. engine_literal),
      defaultUserNameTemplate = ''vault-user'',
      clientIAM = (\<lambda>h. None),
      clientSTS = (\<lambda>h. None),
      storage_Get = (\<lambda>h k. Inr None),
      DecodeJSON = (\<lambda>b. Inr \<lparr>UsernameTemplate = b\<rparr>),
      getGroupPolicies = (\<lambda>h gs. Inr (None, [])),
      combinePolicyDocuments = (\<lambda>ds. Inr (concat ds)),
      storage_PutWAL = (\<lambda>h. Inr ''wal-1''),
      storage_DeleteWAL = (\<lambda>h i. None),
      CreateUser = (\<lambda>h i. None),
      AttachUserPolicy = (\<lambda>h u a. None),
      PutUserPolicy = (\<lambda>h u n d. None),
      AddUserToGroup = (\<lambda>h u g. None),
      TagUser = (\<lambda>h u t. None),
      CreateAccessKey = (\<lambda>h u. Inr \<lparr>ak_AccessKeyId = ''AKIAEXAMPLE'', ak_SecretAccessKey = ''s3cr3t''\<rparr>),
      GetFederationToken = (\<lambda>h i. Inr creds_ok),
      GetSessionToken = (\<lambda>h i. Inr creds_ok),
      AssumeRole = (\<lambda>h i. Inr \<lparr>ar_Credentials = creds_ok, AssumedRoleUserArn = ''arn:aws:sts::1:assumed-role/r/s''\<rparr>),
      CheckAWSError = (\<lambda>e. None),
      backend_Lease = (\<lambda>h. Inr (Some \<lparr>Lease = 3600000000000, LeaseMax = 86400000000000\<rparr>)),
      pathUserRollback = (\<lambda>h k d. None),
      time_Now = (\<lambda>h. 0),
      Seconds_uint64 =
        (\<lambda>d. if 0 \<le> d then d div 1000000000
             else (- ((- d) div 1000000000)) mod 2 ^ 64)\<rparr>"

definition world0 :: world where
  "world0 = \<lparr>wal = Map.empty, trace = []\<rparr>"

definition role_readonly :: awsRoleEntry where
  "role_readonly =
     \<lparr>PolicyArns = [''arn:aws:iam::aws:policy/ReadOnlyAccess''], PolicyDocument = [],
      IAMGroups = [], IAMTags = [], UserPath = [], PermissionsBoundaryARN = []\<rparr>"

text \<open>
  A template engine whose rendering depends on the moment of the call, as a template
  that uses the time or a random suffix does: it appends one mark for every call made
  before. \<open>env_counting\<close> is the successful environment with this engine.
\<close>

definition engine_counting :: "history \<Rightarrow> template_engine" where
  "engine_counting h =
     \<lparr>NewTemplate = (\<lambda>t. None),
      Generate = (\<lambda>t um. Inr (t @ ''-'' @ replicate (length h) (CHR ''i'')))\<rparr>"

definition env_counting :: env where
  "env_counting = env_ok\<lparr>engine := engine_counting\<rparr>"

text \<open>Literal templates just above the two length ceilings: 65 and 33 characters.\<close>

definition template_65 :: string where
  "template_65 = ''vault-0123456789-0123456789-0123456789-0123456789-0123456789-0123''"

definition template_33 :: string where
  "template_33 = ''vault-0123456789-0123456789-01234''"

text \<open>Secrets as the lease store hands them to renew and revoke.\<close>

definition secret_durable :: secret where
  "secret_durable =
     \<lparr>TTL = 60, MaxTTL = 120, Renewable = True,
      InternalData = [''username'' \<mapsto> VStr ''vault-user'', ''is_sts'' \<mapsto> VBool False]\<rparr>"

definition secret_sts :: secret where
  "secret_sts =
     \<lparr>TTL = 60, MaxTTL = 0, Renewable = False,
      InternalData = [''username'' \<mapsto> VStr ''vault-user'', ''is_sts'' \<mapsto> VBool True]\<rparr>"

definition secret_legacy :: secret where
  "secret_legacy =
     \<lparr>TTL = 60, MaxTTL = 120, Renewable = True,
      InternalData = [''username'' \<mapsto> VStr ''vault-user'']\<rparr>"

definition secret_malformed :: secret where
  "secret_malformed =
     \<lparr>TTL = 60, MaxTTL = 120, Renewable = True,
      InternalData = [''username'' \<mapsto> VStr ''vault-user'', ''is_sts'' \<mapsto> VStr ''true'']\<rparr>"

definition secret_numbered :: secret where
  "secret_numbered =
     \<lparr>TTL = 60, MaxTTL = 120, Renewable = True,
      InternalData = [''username'' \<mapsto> VNum 7, ''is_sts'' \<mapsto> VBool False]\<rparr>"

definition secret_nameless :: secret where
  "secret_nameless =
     \<lparr>TTL = 60, MaxTTL = 120, Renewable = True,
      InternalData = [''is_sts'' \<mapsto> VBool False]\<rparr>"

text \<open>Environments in which one collaborator fails.\<close>

definition env_lease_down :: env where
  "env_lease_down = env_ok\<lparr>backend_Lease := (\<lambda>h. Inl (ExtErr ''storage sealed''))\<rparr>"

definition env_no_lease :: env where
  "env_no_lease = env_ok\<lparr>backend_Lease := (\<lambda>h. Inr None)\<rparr>"

definition env_create_fails :: env where
  "env_create_fails = env_ok\<lparr>CreateUser := (\<lambda>h i. Some (ExtErr ''EntityAlreadyExists''))\<rparr>"

definition env_create_and_delete_fail :: env where
  "env_create_and_delete_fail =
     env_create_fails\<lparr>storage_DeleteWAL := (\<lambda>h i. Some (ExtErr ''storage sealed''))\<rparr>"

definition env_attach_fails :: env where
  "env_attach_fails = env_ok\<lparr>AttachUserPolicy := (\<lambda>h u a. Some (ExtErr ''NoSuchEntity''))\<rparr>"

definition env_commit_fails :: env where
  "env_commit_fails = env_ok\<lparr>storage_DeleteWAL := (\<lambda>h i. Some (ExtErr ''storage sealed''))\<rparr>"

section \<open>Properties\<close>

subsection \<open>Username generation\<close>

text \<open>
  C4, as the code has it. When the template parses and renders, the generator returns
  the rendered name itself, unchanged, if it is within the ceiling (64 characters for
  \<open>iam_user\<close> and \<open>assume_role\<close>, 32 for \<open>sts\<close>) and the too-long error
  otherwise: a name above the ceiling is never cut down. The outcome is fixed by the
  inputs together with the engine's answers: two engines that parse and render the
  template alike give the same outcome for the same inputs.
\<close>

theorem genUsername_length_ceiling:
  "NewTemplate te tmpl = None \<Longrightarrow>
   ((userType = ''iam_user'' \<or> userType = ''assume_role'') \<longrightarrow>
      Generate te tmpl \<lparr>Type = ''IAM'', DisplayName = normalizeDisplayName displayName,
                        PolicyName = normalizeDisplayName policyName\<rparr> = Inr name \<longrightarrow>
      genUsername te displayName policyName userType tmpl =
        (if 64 < length name
         then Inl (ErrorMsg ''the username generated by the template exceeds the IAM username length limits of 64 chars'')
         else Inr name)) \<and>
   (Generate te tmpl \<lparr>Type = ''STS'', DisplayName = [], PolicyName = []\<rparr> = Inr name \<longrightarrow>
      genUsername te displayName policyName ''sts'' tmpl =
        (if 32 < length name
         then Inl (ErrorMsg ''the username generated by the template exceeds the STS username length limits of 32 chars'')
         else Inr name)) \<and>
   (\<forall>te'. NewTemplate te' tmpl = NewTemplate te tmpl \<and> Generate te' tmpl = Generate te tmpl \<longrightarrow>
      genUsername te' displayName policyName userType tmpl =
      genUsername te displayName policyName userType tmpl)"
  by (auto simp: genUsername_def)

theorem genUsername_length_ceiling_witness:
  "genUsername engine_literal ''alice'' ''readonly'' ''iam_user'' template_65 =
     Inl (ErrorMsg ''the username generated by the template exceeds the IAM username length limits of 64 chars'') \<and>
   genUsername engine_literal ''alice'' ''readonly'' ''assume_role'' (tl template_65) = Inr (tl template_65) \<and>
   genUsername engine_literal ''alice'' ''readonly'' ''sts'' template_33 =
     Inl (ErrorMsg ''the username generated by the template exceeds the STS username length limits of 32 chars'') \<and>
   genUsername engine_literal ''alice'' ''readonly'' ''sts'' (tl template_33) = Inr (tl template_33) \<and>
   NewTemplate (engine_counting [EvLease]) ''vault'' =
     NewTemplate (engine_counting [EvClientIAM]) ''vault'' \<and>
   Generate (engine_counting [EvLease]) ''vault'' = Generate (engine_counting [EvClientIAM]) ''vault'' \<and>
   genUsername (engine_counting [EvLease]) ''alice'' ''readonly'' ''iam_user'' ''vault'' =
     genUsername (engine_counting [EvClientIAM]) ''alice'' ''readonly'' ''iam_user'' ''vault''"
proof -
  have ok: "\<And>t. NewTemplate engine_literal t = None"
    by (simp add: engine_literal_def)
  have gen: "\<And>t um. Generate engine_literal t um = Inr t"
    by (simp add: engine_literal_def)
  have okc: "NewTemplate (engine_counting [EvClientIAM]) ''vault'' = None"
    by (simp add: engine_counting_def)
  have alike: "NewTemplate (engine_counting [EvLease]) ''vault'' =
                 NewTemplate (engine_counting [EvClientIAM]) ''vault'' \<and>
               Generate (engine_counting [EvLease]) ''vault'' =
                 Generate (engine_counting [EvClientIAM]) ''vault''"
    by (simp add: engine_counting_def)
  from genUsername_length_ceiling [OF okc] alike
  have same: "genUsername (engine_counting [EvLease]) ''alice'' ''readonly'' ''iam_user'' ''vault'' =
              genUsername (engine_counting [EvClientIAM]) ''alice'' ''readonly'' ''iam_user'' ''vault''"
    by blast
  show ?thesis
    using genUsername_length_ceiling [OF ok, of "''iam_user''" template_65 "''alice''" "''readonly''" template_65]
          genUsername_length_ceiling [OF ok, of "''assume_role''" "tl template_65" "''alice''" "''readonly''" "tl template_65"]
          genUsername_length_ceiling [OF ok, of _ template_33 "''alice''" "''readonly''" template_33]
          genUsername_length_ceiling [OF ok, of _ "tl template_33" "''alice''" "''readonly''" "tl template_33"]
          alike same
    by (simp add: gen template_65_def template_33_def)
qed

text \<open>
  The same four inputs under an engine whose rendering depends on the moment of the
  call: two calls return different names, and two issuances for the same display name,
  policy name and role create principals with different names.
\<close>

theorem genUsername_same_inputs_counterexample:
  "genUsername (engine env_counting []) ''alice'' ''readonly'' ''iam_user'' ''vault'' = Inr ''vault-'' \<and>
   genUsername (engine env_counting [EvClientIAM]) ''alice'' ''readonly'' ''iam_user'' ''vault'' =
     Inr ''vault-i'' \<and>
   map_option (\<lambda>x. InternalData x ''username'')
     (returned_secret (fst (secretAccessKeysCreate env_counting ''alice'' ''readonly'' role_readonly
                              world0))) =
     Some (Some (VStr ''vault-user-ii'')) \<and>
   map_option (\<lambda>x. InternalData x ''username'')
     (returned_secret (fst (secretAccessKeysCreate env_counting ''alice'' ''readonly'' role_readonly
        (snd (secretAccessKeysCreate env_counting ''alice'' ''readonly'' role_readonly world0))))) =
     Some (Some (VStr ''vault-user-iiiiiiiiii''))"
  by (simp add: secretAccessKeysCreate_def provision_user_def readConfig_def PutWAL_def
      DeleteWAL_def emit_def genUsername_def createUserRequest_def env_ok_def env_counting_def
      engine_counting_def world0_def role_readonly_def storageKey_def Secret_Response_def
      update_Secret_def secretAccessKeys_def secretAccessKeyType_def Let_def returned_secret_def)

text \<open>
  C9. For a user type other than \<open>iam_user\<close>, \<open>assume_role\<close> and \<open>sts\<close> the
  generator returns the empty name and no error, whatever the template engine would
  do and whatever the other arguments are.
\<close>

theorem genUsername_unrecognized_type:
  "userType \<noteq> ''iam_user'' \<Longrightarrow> userType \<noteq> ''assume_role'' \<Longrightarrow> userType \<noteq> ''sts'' \<Longrightarrow>
   genUsername te displayName policyName userType usernameTemplate = Inr []"
  by (simp add: genUsername_def)

theorem genUsername_unrecognized_type_witness:
  "''federation_token'' \<noteq> ''iam_user'' \<and> ''federation_token'' \<noteq> ''assume_role'' \<and>
   ''federation_token'' \<noteq> ''sts'' \<and>
   genUsername engine_broken ''al ice'' ''readonly'' ''federation_token'' template_65 = Inr []"
proof -
  have a: "''federation_token'' \<noteq> ''iam_user''" by simp
  have b: "''federation_token'' \<noteq> ''assume_role''" by simp
  have c: "''federation_token'' \<noteq> ''sts''" by simp
  from genUsername_unrecognized_type [OF a b c] a b c show ?thesis by blast
qed

subsection \<open>Renew\<close>

lemma as_bool_not_True:
  "v \<noteq> VBool True \<Longrightarrow>
   (case as_bool v of Some isSTS \<Rightarrow> if isSTS then Some x else None | None \<Rightarrow> None) = None"
  by (cases v) auto

lemma renew_not_sts:
  assumes n: "InternalData sec ''is_sts'' \<noteq> Some (VBool True)"
  shows "secretAccessKeysRenew ev sec s =
      (case backend_Lease ev (trace s) of
         Inl e \<Rightarrow> ((None, Some e), emit EvLease s)
       | Inr l \<Rightarrow>
          ((Some \<lparr>Secret = Some (sec\<lparr>TTL := Lease (case l of None \<Rightarrow> \<lparr>Lease = 0, LeaseMax = 0\<rparr> | Some c \<Rightarrow> c),
                                      MaxTTL := LeaseMax (case l of None \<Rightarrow> \<lparr>Lease = 0, LeaseMax = 0\<rparr> | Some c \<Rightarrow> c)\<rparr>),
                  Data = []\<rparr>, None), emit EvLease s))"
proof -
  have early: "(case InternalData sec ''is_sts'' of
            Some isSTSRaw \<Rightarrow>
              (case as_bool isSTSRaw of
                 Some isSTS \<Rightarrow> if isSTS then Some (None :: response option, None :: err option) else None
               | None \<Rightarrow> None)
          | None \<Rightarrow> None) = None"
    using n by (cases "InternalData sec ''is_sts''") (simp_all add: as_bool_not_True)
  show ?thesis
    by (simp add: secretAccessKeysRenew_def early Let_def split: sum.splits)
qed

text \<open>
  C6. Renewing a Secret whose \<open>is_sts\<close> is true changes nothing and calls nothing.
  Renewing any other Secret reads the lease configuration, once, and answers with the
  Secret whose TTL and max-TTL are the configured ones (zero when no lease is
  configured); when the read fails, its error is the answer.
\<close>

theorem renew_behaviour:
  "(InternalData sec ''is_sts'' = Some (VBool True) \<longrightarrow>
      secretAccessKeysRenew ev sec s = ((None, None), s)) \<and>
   (InternalData sec ''is_sts'' \<noteq> Some (VBool True) \<longrightarrow>
      snd (secretAccessKeysRenew ev sec s) = emit EvLease s \<and>
      (\<forall>l. backend_Lease ev (trace s) = Inr (Some l) \<longrightarrow>
         fst (secretAccessKeysRenew ev sec s) =
           (Some \<lparr>Secret = Some (sec\<lparr>TTL := Lease l, MaxTTL := LeaseMax l\<rparr>), Data = []\<rparr>, None)) \<and>
      (backend_Lease ev (trace s) = Inr None \<longrightarrow>
         fst (secretAccessKeysRenew ev sec s) =
           (Some \<lparr>Secret = Some (sec\<lparr>TTL := 0, MaxTTL := 0\<rparr>), Data = []\<rparr>, None)) \<and>
      (\<forall>e. backend_Lease ev (trace s) = Inl e \<longrightarrow>
         fst (secretAccessKeysRenew ev sec s) = (None, Some e)))"
proof -
  have sts: "secretAccessKeysRenew ev sec s = ((None, None), s)"
    if "InternalData sec ''is_sts'' = Some (VBool True)"
    using that by (simp add: secretAccessKeysRenew_def)
  show ?thesis
    using sts renew_not_sts [of sec ev s] by (auto split: sum.splits)
qed

theorem renew_behaviour_witness:
  "secretAccessKeysRenew env_ok secret_sts world0 = ((None, None), world0) \<and>
   trace (snd (secretAccessKeysRenew env_ok secret_durable world0)) = [EvLease] \<and>
   fst (secretAccessKeysRenew env_ok secret_durable world0) =
     (Some \<lparr>Secret = Some (secret_durable\<lparr>TTL := 3600000000000, MaxTTL := 86400000000000\<rparr>),
            Data = []\<rparr>, None) \<and>
   fst (secretAccessKeysRenew env_no_lease secret_legacy world0) =
     (Some \<lparr>Secret = Some (secret_legacy\<lparr>TTL := 0, MaxTTL := 0\<rparr>), Data = []\<rparr>, None) \<and>
   fst (secretAccessKeysRenew env_lease_down secret_durable world0) =
     (None, Some (ExtErr ''storage sealed''))"
  using renew_behaviour [of secret_sts env_ok world0]
        renew_behaviour [of secret_durable env_ok world0]
        renew_behaviour [of secret_legacy env_no_lease world0]
        renew_behaviour [of secret_durable env_lease_down world0]
  by (simp add: secret_sts_def secret_durable_def secret_legacy_def env_ok_def env_no_lease_def
        env_lease_down_def world0_def emit_def)

subsection \<open>Revoke\<close>

lemma revoke_sts:
  "InternalData sec ''is_sts'' = Some (VBool True) \<Longrightarrow>
   secretAccessKeysRevoke ev sec s = ((None, None), s)"
  by (simp add: secretAccessKeysRevoke_def)

lemma revoke_malformed:
  "InternalData sec ''is_sts'' = Some v \<Longrightarrow> as_bool v = None \<Longrightarrow>
   secretAccessKeysRevoke ev sec s =
     ((None, Some (ErrorMsg ''secret has is_sts but value could not be understood'')), s)"
  by (simp add: secretAccessKeysRevoke_def)

lemma revoke_durable:
  assumes "InternalData sec ''is_sts'' = None \<or> InternalData sec ''is_sts'' = Some (VBool False)"
  shows "secretAccessKeysRevoke ev sec s =
     (case InternalData sec ''username'' of
        None \<Rightarrow> ((None, Some (ErrorMsg ''secret is missing username internal data'')), s)
      | Some usernameRaw \<Rightarrow>
        (case as_string usernameRaw of
           None \<Rightarrow> ((None, Some (ErrorMsg ''secret is missing username internal data'')), s)
         | Some username \<Rightarrow>
            ((None, pathUserRollback ev (trace s) ''user'' [(''username'', VStr username)]),
             emit (EvPathUserRollback ''user'' [(''username'', VStr username)]) s)))"
  using assms
  by (auto simp: secretAccessKeysRevoke_def Let_def split: option.splits)

text \<open>
  C5, as the code has it. Revoking a Secret whose \<open>is_sts\<close> is true changes nothing
  and calls nothing. A Secret whose \<open>is_sts\<close> is present but not a boolean is
  rejected before the username is looked at. For a Secret whose \<open>is_sts\<close> is absent
  or false, the username must be present and a string: otherwise the missing-username
  error is returned and nothing is called; with a string username the rollback of kind
  \<open>user\<close> is called once, with the username as its only datum, and its error, if any,
  is the answer.
\<close>

theorem revoke_behaviour:
  "(InternalData sec ''is_sts'' = Some (VBool True) \<longrightarrow>
      secretAccessKeysRevoke ev sec s = ((None, None), s)) \<and>
   (\<forall>v. InternalData sec ''is_sts'' = Some v \<and> as_bool v = None \<longrightarrow>
      secretAccessKeysRevoke ev sec s =
        ((None, Some (ErrorMsg ''secret has is_sts but value could not be understood'')), s)) \<and>
   (InternalData sec ''is_sts'' = None \<or> InternalData sec ''is_sts'' = Some (VBool False) \<longrightarrow>
      (InternalData sec ''username'' = None \<longrightarrow>
         secretAccessKeysRevoke ev sec s =
           ((None, Some (ErrorMsg ''secret is missing username internal data'')), s)) \<and>
      (\<forall>v. InternalData sec ''username'' = Some v \<and> as_string v = None \<longrightarrow>
         secretAccessKeysRevoke ev sec s =
           ((None, Some (ErrorMsg ''secret is missing username internal data'')), s)) \<and>
      (\<forall>username. InternalData sec ''username'' = Some (VStr username) \<longrightarrow>
         secretAccessKeysRevoke ev sec s =
           ((None, pathUserRollback ev (trace s) ''user'' [(''username'', VStr username)]),
            emit (EvPathUserRollback ''user'' [(''username'', VStr username)]) s)))"
  using revoke_sts [of sec ev s] revoke_malformed [of sec _ ev s] revoke_durable [of sec ev s]
  by auto

theorem revoke_behaviour_witness:
  "secretAccessKeysRevoke env_ok secret_sts world0 = ((None, None), world0) \<and>
   secretAccessKeysRevoke env_ok secret_malformed world0 =
     ((None, Some (ErrorMsg ''secret has is_sts but value could not be understood'')), world0) \<and>
   secretAccessKeysRevoke env_ok secret_nameless world0 =
     ((None, Some (ErrorMsg ''secret is missing username internal data'')), world0) \<and>
   secretAccessKeysRevoke env_ok secret_numbered world0 =
     ((None, Some (ErrorMsg ''secret is missing username internal data'')), world0) \<and>
   secretAccessKeysRevoke env_ok secret_durable world0 =
     ((None, None),
      \<lparr>wal = Map.empty, trace = [EvPathUserRollback ''user'' [(''username'', VStr ''vault-user'')]]\<rparr>) \<and>
   secretAccessKeysRevoke env_ok secret_legacy world0 =
     ((None, None),
      \<lparr>wal = Map.empty, trace = [EvPathUserRollback ''user'' [(''username'', VStr ''vault-user'')]]\<rparr>)"
  using revoke_behaviour [of secret_sts env_ok world0]
        revoke_behaviour [of secret_malformed env_ok world0]
        revoke_behaviour [of secret_nameless env_ok world0]
        revoke_behaviour [of secret_numbered env_ok world0]
        revoke_behaviour [of secret_durable env_ok world0]
        revoke_behaviour [of secret_legacy env_ok world0]
  by (simp add: secret_sts_def secret_malformed_def secret_nameless_def secret_numbered_def
        secret_durable_def secret_legacy_def env_ok_def world0_def emit_def)

text \<open>
  Two Secrets whose \<open>is_sts\<close> is not true and which carry a username, and for which
  revoke returns an error without calling the rollback: one with a malformed
  \<open>is_sts\<close>, one with a username that is not a string.
\<close>

theorem revoke_every_other_secret_counterexample:
  "InternalData secret_malformed ''is_sts'' \<noteq> Some (VBool True) \<and>
   InternalData secret_malformed ''username'' = Some (VStr ''vault-user'') \<and>
   secretAccessKeysRevoke env_ok secret_malformed world0 =
     ((None, Some (ErrorMsg ''secret has is_sts but value could not be understood'')), world0) \<and>
   InternalData secret_numbered ''is_sts'' = Some (VBool False) \<and>
   InternalData secret_numbered ''username'' = Some (VNum 7) \<and>
   secretAccessKeysRevoke env_ok secret_numbered world0 =
     ((None, Some (ErrorMsg ''secret is missing username internal data'')), world0)"
  by (simp add: secretAccessKeysRevoke_def secret_malformed_def secret_numbered_def)

subsection \<open>A malformed \<open>is_sts\<close>\<close>

text \<open>
  C7. Renew does not reject a Secret whose \<open>is_sts\<close> is the string \<open>true\<close>: it
  renews it like a Secret without \<open>is_sts\<close>, where revoke returns the error for a
  value that could not be understood.
\<close>

theorem renew_malformed_is_sts_accepted:
  "InternalData secret_malformed ''is_sts'' = Some (VStr ''true'') \<and>
   secretAccessKeysRenew env_ok secret_malformed world0 =
     ((Some \<lparr>Secret = Some (secret_malformed\<lparr>TTL := 3600000000000, MaxTTL := 86400000000000\<rparr>),
             Data = []\<rparr>, None),
      \<lparr>wal = Map.empty, trace = [EvLease]\<rparr>) \<and>
   secretAccessKeysRenew env_ok secret_legacy world0 =
     ((Some \<lparr>Secret = Some (secret_legacy\<lparr>TTL := 3600000000000, MaxTTL := 86400000000000\<rparr>),
             Data = []\<rparr>, None),
      \<lparr>wal = Map.empty, trace = [EvLease]\<rparr>) \<and>
   secretAccessKeysRevoke env_ok secret_malformed world0 =
     ((None, Some (ErrorMsg ''secret has is_sts but value could not be understood'')), world0)"
  by (simp add: secretAccessKeysRenew_def secretAccessKeysRevoke_def secret_malformed_def
        secret_legacy_def env_ok_def world0_def emit_def Let_def)

subsection \<open>Session tokens\<close>

text \<open>
  C8. With a serial number and no token code, once the STS client is obtained, the
  provider's GetSessionToken is called with that serial number and without a token
  code; when the provider answers with a credential, the answer of the request is a
  Secret carrying that credential, not an error.
\<close>

theorem getSessionToken_serial_without_code:
  "serialNumber \<noteq> [] \<Longrightarrow> clientSTS ev (trace s) = None \<Longrightarrow>
   take 2 (drop (length (trace s))
             (trace (snd (getSessionToken ev serialNumber [] lifeTimeInSeconds s)))) =
     [EvClientSTS,
      EvGetSessionToken \<lparr>st_DurationSeconds = lifeTimeInSeconds,
                         st_SerialNumber = Some serialNumber, st_TokenCode = None\<rparr>] \<and>
   (\<forall>creds.
      GetSessionToken ev (trace s @ [EvClientSTS])
        \<lparr>st_DurationSeconds = lifeTimeInSeconds,
         st_SerialNumber = Some serialNumber, st_TokenCode = None\<rparr> = Inr creds \<longrightarrow>
      (\<exists>resp sec.
         fst (getSessionToken ev serialNumber [] lifeTimeInSeconds s) = (Some resp, None) \<and>
         \<not> IsError resp \<and> Secret resp = Some sec \<and>
         map_of (Data resp) ''access_key'' = Some (VStr (AccessKeyId creds)) \<and>
         map_of (Data resp) ''secret_key'' = Some (VStr (SecretAccessKey creds)) \<and>
         map_of (Data resp) ''session_token'' = Some (VStr (SessionToken creds))))"
  by (auto simp: getSessionToken_def sessionTokenInput_def Let_def emit_def time_Until_def
        Secret_Response_def update_Secret_def IsError_def has_entry_def split: sum.splits)

theorem getSessionToken_serial_without_code_witness:
  "''arn:aws:iam::1:mfa/alice'' \<noteq> [] \<and> clientSTS env_ok (trace world0) = None \<and>
   trace (snd (getSessionToken env_ok ''arn:aws:iam::1:mfa/alice'' [] 900 world0)) =
     [EvClientSTS,
      EvGetSessionToken \<lparr>st_DurationSeconds = 900,
                         st_SerialNumber = Some ''arn:aws:iam::1:mfa/alice'', st_TokenCode = None\<rparr>,
      EvTimeNow, EvTimeNow] \<and>
   returned_secret (fst (getSessionToken env_ok ''arn:aws:iam::1:mfa/alice'' [] 900 world0)) =
     Some \<lparr>TTL = 3600000000000, MaxTTL = 0, Renewable = False,
           InternalData = [''is_sts'' \<mapsto> VBool True, ''secret_type'' \<mapsto> VStr ''access_keys'']\<rparr> \<and>
   \<not> surfaced_error (fst (getSessionToken env_ok ''arn:aws:iam::1:mfa/alice'' [] 900 world0))"
proof -
  have a: "''arn:aws:iam::1:mfa/alice'' \<noteq> []" by simp
  have b: "clientSTS env_ok (trace world0) = None" by (simp add: env_ok_def)
  show ?thesis
    using getSessionToken_serial_without_code [OF a b, of 900] a b
    by (simp add: getSessionToken_def sessionTokenInput_def Let_def emit_def time_Until_def
        Secret_Response_def update_Secret_def IsError_def has_entry_def env_ok_def world0_def creds_ok_def returned_secret_def
        surfaced_error_def secretAccessKeys_def secretAccessKeyType_def time_Sub_def
        minDuration_def maxDuration_def)
qed

subsection \<open>Responses, configuration and the clock\<close>

lemma not_IsError: "map_of d ''error'' = None \<Longrightarrow> \<not> IsError \<lparr>Secret = x, Data = d\<rparr>"
  by (simp add: IsError_def has_entry_def)

lemma IsError_ErrorResponse: "IsError (ErrorResponse t)"
  by (simp add: IsError_def has_entry_def ErrorResponse_def)

lemma Secret_ErrorResponse: "Secret (ErrorResponse t) = None"
  by (simp add: ErrorResponse_def)

lemma surfaced_ErrorResponse: "surfaced_error (Some (ErrorResponse t), e)"
  by (simp add: surfaced_error_def IsError_ErrorResponse split: option.splits)

lemma surfaced_err: "surfaced_error (r, Some e)"
  by (simp add: surfaced_error_def)

lemma returned_ErrorResponse: "returned_secret (Some (ErrorResponse t), e) = None"
  by (simp add: returned_secret_def Secret_ErrorResponse)

lemma returned_none: "returned_secret (None, e) = None"
  by (simp add: returned_secret_def)

lemma readConfig_world: "snd (readConfig ev s) = emit (EvStorageGet storageKey) s"
  by (simp add: readConfig_def split: sum.splits option.splits)

lemma readConfig_eq: "readConfig ev s = (r, s') \<Longrightarrow> s' = emit (EvStorageGet storageKey) s"
  using readConfig_world [of ev s] by simp

lemma time_Sub_exact:
  "minDuration \<le> t - u \<Longrightarrow> t - u \<le> maxDuration \<Longrightarrow> time_Sub t u = t - u"
  by (simp add: time_Sub_def)

subsection \<open>Secrets of the ephemeral strategies\<close>

lemma federation_secret:
  assumes "returned_secret (fst (getFederationToken ev d p policy0 arns0 groups life s)) = Some sec"
  shows "InternalData sec ''is_sts'' = Some (VBool True) \<and> \<not> Renewable sec \<and>
     (\<exists>inp creds.
        trace (snd (getFederationToken ev d p policy0 arns0 groups life s)) =
          trace s @ [EvGetGroupPolicies groups, EvClientSTS, EvStorageGet storageKey,
                     EvGetFederationToken inp, EvTimeNow] \<and>
        GetFederationToken ev
          (trace s @ [EvGetGroupPolicies groups, EvClientSTS, EvStorageGet storageKey]) inp =
          Inr creds \<and>
        TTL sec = time_Sub (Expiration creds)
          (time_Now ev (trace s @ [EvGetGroupPolicies groups, EvClientSTS,
                                   EvStorageGet storageKey, EvGetFederationToken inp])))"
  using assms
  by (auto simp: getFederationToken_def Let_def returned_secret_def Secret_ErrorResponse
      time_Until_def emit_def Secret_Response_def update_Secret_def
      split: sum.splits option.splits prod.splits if_split_asm split del: if_split
      dest!: readConfig_eq)

lemma assume_role_secret:
  assumes "returned_secret (fst (assumeRole ev d rn ra policy0 arns0 groups life rsn s)) = Some sec"
  shows "InternalData sec ''is_sts'' = Some (VBool True) \<and> \<not> Renewable sec \<and>
     (\<exists>inp out.
        trace (snd (assumeRole ev d rn ra policy0 arns0 groups life rsn s)) =
          trace s @ [EvGetGroupPolicies groups, EvClientSTS, EvStorageGet storageKey,
                     EvAssumeRole inp, EvTimeNow] \<and>
        AssumeRole ev
          (trace s @ [EvGetGroupPolicies groups, EvClientSTS, EvStorageGet storageKey]) inp =
          Inr out \<and>
        TTL sec = time_Sub (Expiration (ar_Credentials out))
          (time_Now ev (trace s @ [EvGetGroupPolicies groups, EvClientSTS,
                                   EvStorageGet storageKey, EvAssumeRole inp])))"
  using assms
  by (auto simp: assumeRole_def Let_def returned_secret_def Secret_ErrorResponse
      time_Until_def emit_def Secret_Response_def update_Secret_def
      split: sum.splits option.splits prod.splits if_split_asm split del: if_split
      dest!: readConfig_eq)

lemma session_token_secret:
  assumes "returned_secret (fst (getSessionToken ev serial code life s)) = Some sec"
  shows "InternalData sec ''is_sts'' = Some (VBool True) \<and> \<not> Renewable sec \<and>
     (\<exists>inp creds.
        trace (snd (getSessionToken ev serial code life s)) =
          trace s @ [EvClientSTS, EvGetSessionToken inp, EvTimeNow, EvTimeNow] \<and>
        GetSessionToken ev (trace s @ [EvClientSTS]) inp = Inr creds \<and>
        TTL sec = time_Sub (Expiration creds)
          (time_Now ev (trace s @ [EvClientSTS, EvGetSessionToken inp, EvTimeNow])))"
  using assms
  by (auto simp: getSessionToken_def Let_def returned_secret_def Secret_ErrorResponse
      time_Until_def emit_def Secret_Response_def update_Secret_def
      split: sum.splits option.splits prod.splits split del: if_split)

subsection \<open>Provisioning steps\<close>

lemma steps_ok_Nil: "steps_ok u []"
  by (simp add: steps_ok_def)

lemma steps_ok_append: "steps_ok u xs \<Longrightarrow> steps_ok u ys \<Longrightarrow> steps_ok u (xs @ ys)"
  by (simp add: steps_ok_def)

lemma steps_failing_failed: "steps_failing u pfx e evs \<Longrightarrow> steps_failed u evs"
  by (auto simp: steps_failing_def steps_failed_def steps_ok_def list_all_iff failed_step_def)

lemma steps_failing_append:
  "steps_ok u xs \<Longrightarrow> steps_failing u pfx e ys \<Longrightarrow> steps_failing u pfx e (xs @ ys)"
proof -
  assume xs: "steps_ok u xs" and ys: "steps_failing u pfx e ys"
  from ys obtain oks f where f: "ys = oks @ [f]" "steps_ok u oks" "later_step f"
    "event_user f = u" "outcome f = Some e" "step_error_prefix f = pfx"
    by (auto simp: steps_failing_def)
  have "xs @ ys = (xs @ oks) @ [f]"
    using f(1) by simp
  moreover have "steps_ok u (xs @ oks)"
    using xs f(2) by (rule steps_ok_append)
  ultimately show ?thesis
    using f(3-6) unfolding steps_failing_def by blast
qed

lemma step_result_refl: "step_result u pfx s None s"
  by (simp add: step_result_def steps_ok_Nil)

lemma step_result_trans:
  "step_result u pfx' s None s1 \<Longrightarrow> step_result u pfx s1 r s2 \<Longrightarrow> step_result u pfx s r s2"
  by (cases r) (auto simp: step_result_def intro: steps_ok_append steps_failing_append)

lemma step_result_single:
  assumes "later_step e" "event_user e = u" "outcome e = r" "step_error_prefix e = pfx"
  shows "step_result u pfx s r (emit e s)"
proof (cases r)
  case None
  with assms show ?thesis
    by (simp add: step_result_def emit_def steps_ok_def)
next
  case (Some x)
  have "steps_failing u pfx x ([] @ [e])"
    unfolding steps_failing_def using assms Some steps_ok_Nil by blast
  with Some show ?thesis
    by (simp add: step_result_def emit_def)
qed

lemma attach_policies_result:
  "attach_policies ev u arns s = (r, s') \<Longrightarrow>
   step_result u ''Error attaching user policy: '' s r s'"
proof (induction arns arbitrary: s)
  case Nil
  then show ?case by (simp add: step_result_refl)
next
  case (Cons arn arns)
  have one: "step_result u ''Error attaching user policy: '' s (AttachUserPolicy ev (trace s) u arn)
               (emit (EvAttachUserPolicy u arn (AttachUserPolicy ev (trace s) u arn)) s)"
    by (rule step_result_single) simp_all
  show ?case
  proof (cases "AttachUserPolicy ev (trace s) u arn")
    case None
    with Cons.prems have "attach_policies ev u arns (emit (EvAttachUserPolicy u arn None) s) = (r, s')"
      by simp
    from Cons.IH [OF this] one show ?thesis
      unfolding None by (rule step_result_trans [rotated])
  next
    case (Some e)
    with Cons.prems one show ?thesis
      by auto
  qed
qed

lemma add_to_groups_result:
  "add_to_groups ev u gs s = (r, s') \<Longrightarrow>
   step_result u ''Error adding user to group: '' s r s'"
proof (induction gs arbitrary: s)
  case Nil
  then show ?case by (simp add: step_result_refl)
next
  case (Cons g gs)
  have one: "step_result u ''Error adding user to group: '' s (AddUserToGroup ev (trace s) u g)
               (emit (EvAddUserToGroup u g (AddUserToGroup ev (trace s) u g)) s)"
    by (rule step_result_single) simp_all
  show ?case
  proof (cases "AddUserToGroup ev (trace s) u g")
    case None
    with Cons.prems have "add_to_groups ev u gs (emit (EvAddUserToGroup u g None) s) = (r, s')"
      by simp
    from Cons.IH [OF this] one show ?thesis
      unfolding None by (rule step_result_trans [rotated])
  next
    case (Some e)
    with Cons.prems one show ?thesis
      by auto
  qed
qed


text \<open>The three ways in which the provisioning of an existing principal ends.\<close>

lemma provision_user_cases:
  assumes run: "provision_user ev u pn role walID s = (r, s')"
  shows "(\<exists>evs pfx e. trace s' = trace s @ evs \<and> steps_failing u pfx e evs \<and>
            r = (Some (ErrorResponse (pfx @ error_text e)), CheckAWSError ev e) \<and>
            steps_failed u evs \<and> wal s' = wal s \<and>
            surfaced_error r \<and> returned_secret r = None) \<or>
         (\<exists>evs e. trace s' = trace s @ evs @ [EvDeleteWAL walID (Some e)] \<and> steps_ok u evs \<and>
            wal s' = wal s \<and> r = (None, Some (Errorf ''failed to commit WAL entry'' e))) \<or>
         (\<exists>evs resp sec. trace s' = trace s @ evs @ [EvDeleteWAL walID None, EvLease] \<and>
            steps_ok u evs \<and> wal s' = (wal s)(walID := None) \<and>
            r = (Some resp, None) \<and> \<not> IsError resp \<and> Secret resp = Some sec \<and>
            InternalData sec ''is_sts'' = Some (VBool False) \<and>
            InternalData sec ''username'' = Some (VStr u) \<and>
            TTL sec = Lease (case backend_Lease ev (trace s @ evs @ [EvDeleteWAL walID None]) of
                               Inr (Some l) \<Rightarrow> l | _ \<Rightarrow> \<lparr>Lease = 0, LeaseMax = 0\<rparr>) \<and>
            MaxTTL sec = LeaseMax (case backend_Lease ev (trace s @ evs @ [EvDeleteWAL walID None]) of
                               Inr (Some l) \<Rightarrow> l | _ \<Rightarrow> \<lparr>Lease = 0, LeaseMax = 0\<rparr>))"
    (is "?F \<or> ?D \<or> ?S")
proof -
  have failed: "?F"
    if "step_result u pfx s (Some e) s'"
      "r = (Some (ErrorResponse (pfx @ error_text e)), CheckAWSError ev e)"
    for pfx e
  proof -
    from that(1) obtain evs where evs: "trace s' = trace s @ evs" "steps_failing u pfx e evs"
      "wal s' = wal s"
      by (auto simp: step_result_def)
    moreover have "steps_failed u evs"
      using evs(2) by (rule steps_failing_failed)
    moreover have "surfaced_error r" "returned_secret r = None"
      using that(2) by (simp_all add: surfaced_ErrorResponse returned_ErrorResponse)
    ultimately show ?thesis
      using that(2) by blast
  qed
  obtain r1 s1 where a1: "attach_policies ev u (PolicyArns role) s = (r1, s1)"
    by (cases "attach_policies ev u (PolicyArns role) s")
  have sr1: "step_result u ''Error attaching user policy: '' s r1 s1"
    using a1 by (rule attach_policies_result)
  show ?thesis
  proof (cases r1)
    case (Some e)
    then have "?F"
      using run a1 sr1
      by (intro failed [of "''Error attaching user policy: ''" e])
         (auto simp: provision_user_def surfaced_ErrorResponse returned_ErrorResponse)
    then show ?thesis by blast
  next
    case r1: None
    obtain r2 s2 where a2:
      "(if PolicyDocument role \<noteq> [] then
          (PutUserPolicy ev (trace s1) u pn (PolicyDocument role),
           emit (EvPutUserPolicy u pn (PolicyDocument role)
                   (PutUserPolicy ev (trace s1) u pn (PolicyDocument role))) s1)
        else (None, s1)) = (r2, s2)"
      by (cases "PolicyDocument role \<noteq> []") simp_all
    have "step_result u ''Error putting user policy: '' s1 r2 s2"
      using a2 by (auto split: if_splits intro: step_result_single step_result_refl)
    with sr1 r1 have sr2: "step_result u ''Error putting user policy: '' s r2 s2"
      by (auto intro: step_result_trans)
    show ?thesis
    proof (cases r2)
      case (Some e)
      then have "?F"
        using run a1 r1 sr2 a2
        by (intro failed [of "''Error putting user policy: ''" e])
           (auto simp: provision_user_def surfaced_ErrorResponse returned_ErrorResponse
                 split del: if_split)
      then show ?thesis by blast
    next
      case r2: None
      obtain r3 s3 where a3: "add_to_groups ev u (IAMGroups role) s2 = (r3, s3)"
        by (cases "add_to_groups ev u (IAMGroups role) s2")
      have "step_result u ''Error adding user to group: '' s2 r3 s3"
        using a3 by (rule add_to_groups_result)
      with sr2 r2 have sr3: "step_result u ''Error adding user to group: '' s r3 s3"
        by (auto intro: step_result_trans)
      show ?thesis
      proof (cases r3)
        case (Some e)
        then have "?F"
          using run a1 r1 a2 r2 a3 sr3
          by (intro failed [of "''Error adding user to group: ''" e])
             (auto simp: provision_user_def surfaced_ErrorResponse returned_ErrorResponse
                   split del: if_split)
        then show ?thesis by blast
      next
        case r3: None
        obtain r4 s4 where a4:
          "(if length (IAMTags role) > 0 then
              (TagUser ev (trace s3) u (IAMTags role),
               emit (EvTagUser u (IAMTags role) (TagUser ev (trace s3) u (IAMTags role))) s3)
            else (None, s3)) = (r4, s4)"
          by (cases "length (IAMTags role) > 0") simp_all
        have "step_result u ''Error adding tags to user: '' s3 r4 s4"
          using a4 by (auto split: if_splits intro: step_result_single step_result_refl)
        with sr3 r3 have sr4: "step_result u ''Error adding tags to user: '' s r4 s4"
          by (auto intro: step_result_trans)
        show ?thesis
        proof (cases r4)
          case (Some e)
          then have "?F"
            using run a1 r1 a2 r2 a3 r3 a4 sr4
            by (intro failed [of "''Error adding tags to user: ''" e])
               (auto simp: provision_user_def Let_def surfaced_ErrorResponse
                     returned_ErrorResponse split del: if_split)
          then show ?thesis by blast
        next
          case r4: None
          define k where "k = CreateAccessKey ev (trace s4) u"
          define s5 where
            "s5 = emit (EvCreateAccessKey u (case k of Inl e \<Rightarrow> Some e | Inr x \<Rightarrow> None)) s4"
          have "step_result u ''Error creating access keys: '' s4 (case k of Inl e \<Rightarrow> Some e | Inr x \<Rightarrow> None) s5"
            unfolding s5_def by (rule step_result_single) simp_all
          with sr4 r4 have sr5:
            "step_result u ''Error creating access keys: '' s (case k of Inl e \<Rightarrow> Some e | Inr x \<Rightarrow> None) s5"
            by (auto intro: step_result_trans)
          note run5 = run a1 r1 a2 r2 a3 r3 a4 r4
          show ?thesis
          proof (cases k)
            case (Inl e)
            then have "?F"
              using run5 sr5
              by (intro failed [of "''Error creating access keys: ''" e])
                 (auto simp: provision_user_def Let_def k_def s5_def surfaced_ErrorResponse
                       returned_ErrorResponse split del: if_split)
            then show ?thesis by blast
          next
            case (Inr keyResp)
            with sr5 have ok5: "step_result u ''Error creating access keys: '' s None s5"
              by simp
            then obtain evs where evs: "trace s5 = trace s @ evs" "steps_ok u evs" "wal s5 = wal s"
              by (auto simp: step_result_def)
            show ?thesis
            proof (cases "storage_DeleteWAL ev (trace s5) walID")
              case (Some e)
              then have "?D"
                using run5 Inr evs
                by (auto simp: provision_user_def Let_def k_def s5_def DeleteWAL_def emit_def
                      split del: if_split)
              then show ?thesis by blast
            next
              case None
              then have "?S"
                using run5 Inr evs
                by (auto simp: provision_user_def Let_def k_def s5_def DeleteWAL_def emit_def
                      Secret_Response_def update_Secret_def not_IsError
                      split: sum.splits option.splits split del: if_split)
              then show ?thesis by blast
            qed
          qed
        qed
      qed
    qed
  qed
qed

text \<open>The five ways in which a durable-user issuance ends.\<close>

lemma create_cases:
  assumes run: "secretAccessKeysCreate ev d p role s = (r, s')"
  shows
    "(\<exists>evs. trace s' = trace s @ evs \<and> wal s' = wal s \<and> surfaced_error r \<and>
        returned_secret r = None \<and>
        (evs = [EvClientIAM] \<or> evs = [EvClientIAM, EvStorageGet storageKey] \<or>
         (\<exists>w e. evs = [EvClientIAM, EvStorageGet storageKey, EvPutWAL ''user'' w (Inl e)]))) \<or>
     (\<exists>u walID e.
        trace s' = trace s @ [EvClientIAM, EvStorageGet storageKey,
                              EvPutWAL ''user'' \<lparr>UserName = u\<rparr> (Inr walID),
                              EvCreateUser (createUserRequest u role) (Some e),
                              EvDeleteWAL walID None] \<and>
        wal s' walID = None \<and>
        r = (Some (ErrorResponse (''Error creating IAM user: '' @ error_text e)),
             CheckAWSError ev e)) \<or>
     (\<exists>u walID e walErr.
        trace s' = trace s @ [EvClientIAM, EvStorageGet storageKey,
                              EvPutWAL ''user'' \<lparr>UserName = u\<rparr> (Inr walID),
                              EvCreateUser (createUserRequest u role) (Some e),
                              EvDeleteWAL walID (Some walErr)] \<and>
        wal s' walID = Some (''user'', \<lparr>UserName = u\<rparr>) \<and>
        r = (None, Some (ErrWrap (Errorf ''failed to delete WAL entry'' walErr)
                                 (Errorf ''error creating IAM user'' e)))) \<or>
     (\<exists>u walID.
        provision_user ev u p role walID
          (s\<lparr>wal := (wal s)(walID \<mapsto> (''user'', \<lparr>UserName = u\<rparr>)),
             trace := trace s @ [EvClientIAM, EvStorageGet storageKey,
                                 EvPutWAL ''user'' \<lparr>UserName = u\<rparr> (Inr walID),
                                 EvCreateUser (createUserRequest u role) None]\<rparr>) = (r, s'))"
  using run
  by (auto simp: secretAccessKeysCreate_def Let_def emit_def PutWAL_def DeleteWAL_def
      surfaced_ErrorResponse surfaced_err returned_ErrorResponse returned_none
      split: sum.splits option.splits prod.splits split del: if_split
      dest!: readConfig_eq)

subsection \<open>The write-ahead log\<close>

lemma later_step_facts:
  "later_step e \<Longrightarrow> mutating e \<and> \<not> is_DeleteWAL e"
  by (cases e) simp_all

lemma wal_guarded_steps:
  "list_all (\<lambda>e. later_step e \<and> event_user e = u) evs \<Longrightarrow> u \<in> set logged \<Longrightarrow>
   wal_guarded logged (evs @ rest) = wal_guarded logged rest"
proof (induction evs)
  case Nil
  then show ?case by simp
next
  case (Cons e evs)
  then show ?case by (cases e) simp_all
qed

lemma steps_ok_all:
  "steps_ok u evs \<Longrightarrow> list_all (\<lambda>e. later_step e \<and> event_user e = u) evs"
  by (simp add: steps_ok_def list_all_iff)

lemma steps_failed_all:
  "steps_failed u evs \<Longrightarrow> list_all (\<lambda>e. later_step e \<and> event_user e = u) evs"
  by (simp add: steps_failed_def)

lemma steps_ok_not_failed: "steps_ok u evs \<Longrightarrow> \<not> list_ex failed_step evs"
  by (auto simp: steps_ok_def list_all_iff list_ex_iff failed_step_def)

lemma steps_no_delete:
  "list_all (\<lambda>e. later_step e \<and> event_user e = u) evs \<Longrightarrow> \<not> list_ex is_DeleteWAL evs"
  by (auto simp: list_all_iff list_ex_iff dest: later_step_facts)

lemma steps_no_create:
  "list_all (\<lambda>e. later_step e \<and> event_user e = u) evs \<Longrightarrow> EvCreateUser i x \<notin> set evs"
  by (auto simp: list_all_iff)

lemma steps_no_put:
  "list_all (\<lambda>e. later_step e \<and> event_user e = u) evs \<Longrightarrow> EvPutWAL k w x \<notin> set evs"
  by (auto simp: list_all_iff)

lemma cu_UserName_request: "cu_UserName (createUserRequest u role) = u"
  by (simp add: createUserRequest_def)

lemma discipline_early:
  assumes "trace s' = trace s @ evs" "wal s' = wal s" "surfaced_error r" "returned_secret r = None"
    "evs = [EvClientIAM] \<or> evs = [EvClientIAM, EvStorageGet storageKey] \<or>
     (\<exists>w e. evs = [EvClientIAM, EvStorageGet storageKey, EvPutWAL ''user'' w (Inl e)])"
  shows "wal_discipline ev s r s' evs"
  using assms by (auto simp: wal_discipline_def failed_step_def)

lemma discipline_create_failed:
  assumes "evs = [EvClientIAM, EvStorageGet storageKey,
                  EvPutWAL ''user'' \<lparr>UserName = u\<rparr> (Inr walID),
                  EvCreateUser (createUserRequest u role) (Some e),
                  EvDeleteWAL walID None]"
    "wal s' walID = None"
    "r = (Some (ErrorResponse (''Error creating IAM user: '' @ error_text e)), CheckAWSError ev e)"
  shows "wal_discipline ev s r s' evs"
  unfolding wal_discipline_def
proof (intro conjI allI impI)
  show "wal_guarded [] evs"
    using assms by (simp add: cu_UserName_request)
next
  fix inp e'
  assume "EvCreateUser inp (Some e') \<in> set evs"
  then have eq: "inp = createUserRequest u role" "e' = e"
    using assms by auto
  show "\<exists>pre walID dl.
           evs = pre @ [EvPutWAL ''user'' \<lparr>UserName = cu_UserName inp\<rparr> (Inr walID),
                        EvCreateUser inp (Some e'), EvDeleteWAL walID dl] \<and>
           (dl = None \<longrightarrow>
              wal s' walID = None \<and>
              r = (Some (ErrorResponse (''Error creating IAM user: '' @ error_text e')),
                   CheckAWSError ev e')) \<and>
           (\<forall>walErr. dl = Some walErr \<longrightarrow>
              r = (None, Some (ErrWrap (Errorf ''failed to delete WAL entry'' walErr)
                                       (Errorf ''error creating IAM user'' e'))))"
    by (rule exI [of _ "[EvClientIAM, EvStorageGet storageKey]"], rule exI [of _ walID],
        rule exI [of _ None]) (use assms eq in \<open>simp add: cu_UserName_request\<close>)
qed (use assms in \<open>auto simp: failed_step_def returned_ErrorResponse surfaced_ErrorResponse\<close>)

lemma discipline_create_and_delete_failed:
  assumes "evs = [EvClientIAM, EvStorageGet storageKey,
                  EvPutWAL ''user'' \<lparr>UserName = u\<rparr> (Inr walID),
                  EvCreateUser (createUserRequest u role) (Some e),
                  EvDeleteWAL walID (Some walErr)]"
    "r = (None, Some (ErrWrap (Errorf ''failed to delete WAL entry'' walErr)
                              (Errorf ''error creating IAM user'' e)))"
  shows "wal_discipline ev s r s' evs"
  unfolding wal_discipline_def
proof (intro conjI allI impI)
  show "wal_guarded [] evs"
    using assms by (simp add: cu_UserName_request)
next
  fix inp e'
  assume "EvCreateUser inp (Some e') \<in> set evs"
  then have eq: "inp = createUserRequest u role" "e' = e"
    using assms by auto
  show "\<exists>pre walID dl.
           evs = pre @ [EvPutWAL ''user'' \<lparr>UserName = cu_UserName inp\<rparr> (Inr walID),
                        EvCreateUser inp (Some e'), EvDeleteWAL walID dl] \<and>
           (dl = None \<longrightarrow>
              wal s' walID = None \<and>
              r = (Some (ErrorResponse (''Error creating IAM user: '' @ error_text e')),
                   CheckAWSError ev e')) \<and>
           (\<forall>walErr. dl = Some walErr \<longrightarrow>
              r = (None, Some (ErrWrap (Errorf ''failed to delete WAL entry'' walErr)
                                       (Errorf ''error creating IAM user'' e'))))"
    by (rule exI [of _ "[EvClientIAM, EvStorageGet storageKey]"], rule exI [of _ walID],
        rule exI [of _ "Some walErr"]) (use assms eq in \<open>simp add: cu_UserName_request\<close>)
qed (use assms in \<open>auto simp: failed_step_def returned_none surfaced_err\<close>)


lemma discipline_step_failed:
  assumes evs: "evs = [EvClientIAM, EvStorageGet storageKey,
                  EvPutWAL ''user'' \<lparr>UserName = u\<rparr> (Inr walID),
                  EvCreateUser (createUserRequest u role) None] @ steps"
    and failing: "steps_failing u pfx e steps"
    and wal: "wal s' walID = Some (''user'', \<lparr>UserName = u\<rparr>)"
    and r: "r = (Some (ErrorResponse (pfx @ error_text e)), CheckAWSError ev e)"
  shows "wal_discipline ev s r s' evs"
proof -
  note steps = steps_failing_failed [OF failing]
  note all = steps_failed_all [OF steps]
  from failing obtain oks f0 where f0: "steps = oks @ [f0]" "steps_ok u oks"
    "outcome f0 = Some e" "step_error_prefix f0 = pfx"
    by (auto simp: steps_failing_def)
  have g: "wal_guarded [] evs"
    using wal_guarded_steps [OF all, of "[u]" "[]"] by (simp add: evs cu_UserName_request)
  have c: "EvCreateUser inp (Some e') \<notin> set evs" for inp e'
    using steps_no_create [OF all] by (simp add: evs)
  have d: "\<not> list_ex is_DeleteWAL evs"
    using steps_no_delete [OF all] by (simp add: evs)
  have p: "EvPutWAL ''user'' \<lparr>UserName = u\<rparr> (Inr walID) \<in> set evs"
    by (simp add: evs)
  have only: "f = f0" if "f \<in> set evs" "failed_step f" for f
  proof -
    from that have "f \<in> set oks \<or> f = f0"
      by (auto simp: evs f0(1) failed_step_def)
    moreover have "f \<notin> set oks"
      using f0(2) that(2) by (auto simp: steps_ok_def list_all_iff failed_step_def)
    ultimately show ?thesis by simp
  qed
  have x: "\<exists>e'. outcome f = Some e' \<and>
             r = (Some (ErrorResponse (step_error_prefix f @ error_text e')), CheckAWSError ev e')"
    if "f \<in> set evs" "failed_step f" for f
    using only [OF that] f0(3,4) r by simp
  have sf: "surfaced_error r" and rn: "returned_secret r = None"
    by (simp_all add: r surfaced_ErrorResponse returned_ErrorResponse)
  have y: "\<exists>i w. EvPutWAL ''user'' \<lparr>UserName = w\<rparr> (Inr i) \<in> set evs \<and>
             wal s' i = Some (''user'', \<lparr>UserName = w\<rparr>)"
    using p wal by blast
  show ?thesis
    unfolding wal_discipline_def using c x by (simp add: g d sf rn y)
qed

lemma discipline_commit_failed:
  assumes evs: "evs = [EvClientIAM, EvStorageGet storageKey,
                  EvPutWAL ''user'' \<lparr>UserName = u\<rparr> (Inr walID),
                  EvCreateUser (createUserRequest u role) None] @ steps
                  @ [EvDeleteWAL walID (Some e)]"
    and steps: "steps_ok u steps"
    and r: "r = (None, Some (Errorf ''failed to commit WAL entry'' e))"
  shows "wal_discipline ev s r s' evs"
proof -
  note all = steps_ok_all [OF steps]
  have g: "wal_guarded [] evs"
    using wal_guarded_steps [OF all, of "[u]" "[EvDeleteWAL walID (Some e)]"]
    by (simp add: evs cu_UserName_request)
  have c: "EvCreateUser inp (Some e') \<notin> set evs" for inp e'
    using steps_no_create [OF all] by (simp add: evs)
  have f: "\<not> failed_step x" if "x \<in> set evs" for x
    using steps_ok_not_failed [OF steps] that by (auto simp: evs failed_step_def list_ex_iff)
  show ?thesis
    unfolding wal_discipline_def using g c f
    by (auto simp: r returned_none surfaced_err)
qed

lemma discipline_success:
  assumes evs: "evs = [EvClientIAM, EvStorageGet storageKey,
                  EvPutWAL ''user'' \<lparr>UserName = u\<rparr> (Inr walID),
                  EvCreateUser (createUserRequest u role) None] @ steps
                  @ [EvDeleteWAL walID None, EvLease]"
    and steps: "steps_ok u steps"
    and wal: "wal s' walID = None"
  shows "wal_discipline ev s r s' evs"
proof -
  note all = steps_ok_all [OF steps]
  have g: "wal_guarded [] evs"
    using wal_guarded_steps [OF all, of "[u]" "[EvDeleteWAL walID None, EvLease]"]
    by (simp add: evs cu_UserName_request)
  have c: "EvCreateUser inp (Some e') \<notin> set evs" for inp e'
    using steps_no_create [OF all] by (simp add: evs)
  have f: "\<not> failed_step x" if "x \<in> set evs" for x
    using steps_ok_not_failed [OF steps] that by (auto simp: evs failed_step_def list_ex_iff)
  have p: "EvPutWAL ''user'' w (Inr i) \<in> set evs \<Longrightarrow> i = walID" for w i
    using steps_no_put [OF all] by (auto simp: evs)
  have k: "\<exists>pre i w.
           EvPutWAL ''user'' w (Inr i) \<in> set pre \<and>
           evs = pre @ [EvDeleteWAL i None, EvLease] \<and> wal s' i = None"
    by (rule exI [of _ "[EvClientIAM, EvStorageGet storageKey,
                  EvPutWAL ''user'' \<lparr>UserName = u\<rparr> (Inr walID),
                  EvCreateUser (createUserRequest u role) None] @ steps"],
        rule exI [of _ walID], rule exI [of _ "\<lparr>UserName = u\<rparr>"])
       (simp add: evs wal)
  show ?thesis
    unfolding wal_discipline_def using g c f k p wal by blast
qed

lemma create_discipline:
  assumes run: "secretAccessKeysCreate ev d p role s = (r, s')"
  shows "\<exists>evs. trace s' = trace s @ evs \<and> wal_discipline ev s r s' evs"
proof -
  consider
    (early) evs where "trace s' = trace s @ evs" "wal s' = wal s" "surfaced_error r"
      "returned_secret r = None"
      "evs = [EvClientIAM] \<or> evs = [EvClientIAM, EvStorageGet storageKey] \<or>
       (\<exists>w e. evs = [EvClientIAM, EvStorageGet storageKey, EvPutWAL ''user'' w (Inl e)])"
  | (create_failed) u walID e where
      "trace s' = trace s @ [EvClientIAM, EvStorageGet storageKey,
                              EvPutWAL ''user'' \<lparr>UserName = u\<rparr> (Inr walID),
                              EvCreateUser (createUserRequest u role) (Some e),
                              EvDeleteWAL walID None]"
      "wal s' walID = None"
      "r = (Some (ErrorResponse (''Error creating IAM user: '' @ error_text e)),
            CheckAWSError ev e)"
  | (both_failed) u walID e walErr where
      "trace s' = trace s @ [EvClientIAM, EvStorageGet storageKey,
                              EvPutWAL ''user'' \<lparr>UserName = u\<rparr> (Inr walID),
                              EvCreateUser (createUserRequest u role) (Some e),
                              EvDeleteWAL walID (Some walErr)]"
      "r = (None, Some (ErrWrap (Errorf ''failed to delete WAL entry'' walErr)
                                (Errorf ''error creating IAM user'' e)))"
  | (provision) u walID where
      "provision_user ev u p role walID
          (s\<lparr>wal := (wal s)(walID \<mapsto> (''user'', \<lparr>UserName = u\<rparr>)),
             trace := trace s @ [EvClientIAM, EvStorageGet storageKey,
                                 EvPutWAL ''user'' \<lparr>UserName = u\<rparr> (Inr walID),
                                 EvCreateUser (createUserRequest u role) None]\<rparr>) = (r, s')"
    using create_cases [OF run] by blast
  then show ?thesis
  proof cases
    case early
    then show ?thesis
      by (blast intro: discipline_early)
  next
    case create_failed
    then show ?thesis
      by (blast intro: discipline_create_failed [OF refl])
  next
    case both_failed
    then show ?thesis
      by (blast intro: discipline_create_and_delete_failed [OF refl])
  next
    case provision
    let ?s4 = "s\<lparr>wal := (wal s)(walID \<mapsto> (''user'', \<lparr>UserName = u\<rparr>)),
               trace := trace s @ [EvClientIAM, EvStorageGet storageKey,
                                   EvPutWAL ''user'' \<lparr>UserName = u\<rparr> (Inr walID),
                                   EvCreateUser (createUserRequest u role) None]\<rparr>"
    consider
      (step_failed) steps pfx e where "trace s' = trace ?s4 @ steps" "steps_failing u pfx e steps"
        "wal s' = wal ?s4" "r = (Some (ErrorResponse (pfx @ error_text e)), CheckAWSError ev e)"
    | (commit_failed) steps e where
        "trace s' = trace ?s4 @ steps @ [EvDeleteWAL walID (Some e)]" "steps_ok u steps"
        "r = (None, Some (Errorf ''failed to commit WAL entry'' e))"
    | (success) steps where
        "trace s' = trace ?s4 @ steps @ [EvDeleteWAL walID None, EvLease]" "steps_ok u steps"
        "wal s' = (wal ?s4)(walID := None)"
      using provision_user_cases [OF provision] by blast
    then show ?thesis
    proof cases
      case step_failed
      have "wal_discipline ev s r s'
              ([EvClientIAM, EvStorageGet storageKey,
                    EvPutWAL ''user'' \<lparr>UserName = u\<rparr> (Inr walID),
                    EvCreateUser (createUserRequest u role) None] @ steps)"
        by (rule discipline_step_failed [OF refl]) (use step_failed in simp_all)
      moreover have "trace s' = trace s @
              [EvClientIAM, EvStorageGet storageKey,
                    EvPutWAL ''user'' \<lparr>UserName = u\<rparr> (Inr walID),
                    EvCreateUser (createUserRequest u role) None] @ steps"
        using step_failed by simp
      ultimately show ?thesis by blast
    next
      case commit_failed
      have "wal_discipline ev s r s'
              ([EvClientIAM, EvStorageGet storageKey,
                    EvPutWAL ''user'' \<lparr>UserName = u\<rparr> (Inr walID),
                    EvCreateUser (createUserRequest u role) None] @ steps @ [EvDeleteWAL walID (Some e)])"
        by (rule discipline_commit_failed [OF refl]) (use commit_failed in simp_all)
      moreover have "trace s' = trace s @
              [EvClientIAM, EvStorageGet storageKey,
                    EvPutWAL ''user'' \<lparr>UserName = u\<rparr> (Inr walID),
                    EvCreateUser (createUserRequest u role) None] @ steps @ [EvDeleteWAL walID (Some e)]"
        using commit_failed by simp
      ultimately show ?thesis by blast
    next
      case success
      have "wal_discipline ev s r s'
              ([EvClientIAM, EvStorageGet storageKey,
                    EvPutWAL ''user'' \<lparr>UserName = u\<rparr> (Inr walID),
                    EvCreateUser (createUserRequest u role) None] @ steps @ [EvDeleteWAL walID None, EvLease])"
        by (rule discipline_success [OF refl]) (use success in simp_all)
      moreover have "trace s' = trace s @
              [EvClientIAM, EvStorageGet storageKey,
                    EvPutWAL ''user'' \<lparr>UserName = u\<rparr> (Inr walID),
                    EvCreateUser (createUserRequest u role) None] @ steps @ [EvDeleteWAL walID None, EvLease]"
        using success by simp
      ultimately show ?thesis by blast
    qed
  qed
qed

text \<open>
  C1, as the code has it. In every durable-user issuance: a ledger entry naming the
  principal is written before any call that changes the principal; if the creation of
  the principal fails, the entry is deleted by the very next call and the creation
  error is returned, as an error response when the deletion succeeds and wrapped with
  the deletion error when it fails; if a later step fails, the answer is the error
  response made of that step's message and that step's error, together with what the
  error check makes of that error, no deletion of the entry is attempted and the entry
  is still in the ledger; a Secret is
  returned only after the entry has been deleted. So at the end the entry is absent or
  an error is surfaced: never a success with a dangling entry. (Both hold together
  when the creation fails and the entry is deleted.)
\<close>

theorem durable_user_wal_discipline:
  "\<exists>evs. trace (snd (secretAccessKeysCreate ev d p role s)) = trace s @ evs \<and>
     wal_guarded [] evs \<and>
     (\<forall>inp e. EvCreateUser inp (Some e) \<in> set evs \<longrightarrow>
        (\<exists>pre walID dl.
           evs = pre @ [EvPutWAL ''user'' \<lparr>UserName = cu_UserName inp\<rparr> (Inr walID),
                        EvCreateUser inp (Some e), EvDeleteWAL walID dl] \<and>
           (dl = None \<longrightarrow>
              wal (snd (secretAccessKeysCreate ev d p role s)) walID = None \<and>
              fst (secretAccessKeysCreate ev d p role s) =
                (Some (ErrorResponse (''Error creating IAM user: '' @ error_text e)),
                 CheckAWSError ev e)) \<and>
           (\<forall>walErr. dl = Some walErr \<longrightarrow>
              fst (secretAccessKeysCreate ev d p role s) =
                (None, Some (ErrWrap (Errorf ''failed to delete WAL entry'' walErr)
                                     (Errorf ''error creating IAM user'' e)))))) \<and>
     (\<forall>f. f \<in> set evs \<and> failed_step f \<longrightarrow>
        (\<exists>e. outcome f = Some e \<and>
           fst (secretAccessKeysCreate ev d p role s) =
             (Some (ErrorResponse (step_error_prefix f @ error_text e)), CheckAWSError ev e)) \<and>
        surfaced_error (fst (secretAccessKeysCreate ev d p role s)) \<and>
        \<not> list_ex is_DeleteWAL evs \<and>
        (\<exists>walID u. EvPutWAL ''user'' \<lparr>UserName = u\<rparr> (Inr walID) \<in> set evs \<and>
           wal (snd (secretAccessKeysCreate ev d p role s)) walID =
             Some (''user'', \<lparr>UserName = u\<rparr>))) \<and>
     (\<forall>sec. returned_secret (fst (secretAccessKeysCreate ev d p role s)) = Some sec \<longrightarrow>
        (\<exists>pre walID w.
           EvPutWAL ''user'' w (Inr walID) \<in> set pre \<and>
           evs = pre @ [EvDeleteWAL walID None, EvLease] \<and>
           wal (snd (secretAccessKeysCreate ev d p role s)) walID = None)) \<and>
     (\<forall>walID w. EvPutWAL ''user'' w (Inr walID) \<in> set evs \<longrightarrow>
        wal (snd (secretAccessKeysCreate ev d p role s)) walID = None \<or>
        surfaced_error (fst (secretAccessKeysCreate ev d p role s)))"
  using create_discipline [of ev d p role s "fst (secretAccessKeysCreate ev d p role s)"
      "snd (secretAccessKeysCreate ev d p role s)"]
  unfolding wal_discipline_def by simp

lemmas create_eval =
  secretAccessKeysCreate_def provision_user_def readConfig_def PutWAL_def DeleteWAL_def emit_def
  genUsername_def createUserRequest_def env_ok_def env_create_fails_def env_attach_fails_def
  env_create_and_delete_fail_def env_commit_fails_def env_lease_down_def env_no_lease_def
  world0_def role_readonly_def engine_literal_def storageKey_def Secret_Response_def
  update_Secret_def secretAccessKeys_def secretAccessKeyType_def ErrorResponse_def Let_def

theorem durable_user_wal_discipline_witness:
  "list_ex failed_step
     (trace (snd (secretAccessKeysCreate env_attach_fails ''alice'' ''readonly'' role_readonly world0))) \<and>
   fst (secretAccessKeysCreate env_attach_fails ''alice'' ''readonly'' role_readonly world0) =
     (Some (ErrorResponse ''Error attaching user policy: NoSuchEntity''), None) \<and>
   surfaced_error (fst (secretAccessKeysCreate env_attach_fails ''alice'' ''readonly'' role_readonly world0)) \<and>
   \<not> list_ex is_DeleteWAL
     (trace (snd (secretAccessKeysCreate env_attach_fails ''alice'' ''readonly'' role_readonly world0))) \<and>
   returned_secret (fst (secretAccessKeysCreate env_ok ''alice'' ''readonly'' role_readonly world0)) \<noteq> None \<and>
   wal (snd (secretAccessKeysCreate env_ok ''alice'' ''readonly'' role_readonly world0)) ''wal-1'' = None \<and>
   fst (secretAccessKeysCreate env_create_and_delete_fail ''alice'' ''readonly'' role_readonly world0) =
     (None, Some (ErrWrap (Errorf ''failed to delete WAL entry'' (ExtErr ''storage sealed''))
                          (Errorf ''error creating IAM user'' (ExtErr ''EntityAlreadyExists'')))) \<and>
   fst (secretAccessKeysCreate env_commit_fails ''alice'' ''readonly'' role_readonly world0) =
     (None, Some (Errorf ''failed to commit WAL entry'' (ExtErr ''storage sealed''))) \<and>
   wal (snd (secretAccessKeysCreate env_commit_fails ''alice'' ''readonly'' role_readonly world0))
     ''wal-1'' = Some (''user'', \<lparr>UserName = ''vault-user''\<rparr>)"
proof -
  let ?R = "secretAccessKeysCreate env_attach_fails ''alice'' ''readonly'' role_readonly world0"
  let ?S = "secretAccessKeysCreate env_ok ''alice'' ''readonly'' role_readonly world0"
  have tr: "trace (snd ?R) =
      [EvClientIAM, EvStorageGet ''config/root'',
       EvPutWAL ''user'' \<lparr>UserName = ''vault-user''\<rparr> (Inr ''wal-1''),
       EvCreateUser \<lparr>cu_UserName = ''vault-user'', cu_Path = ''/'', cu_PermissionsBoundary = None\<rparr> None,
       EvAttachUserPolicy ''vault-user'' ''arn:aws:iam::aws:policy/ReadOnlyAccess''
         (Some (ExtErr ''NoSuchEntity''))]"
    by (simp add: create_eval)
  have hyp: "list_ex failed_step (trace (snd ?R))"
    by (simp add: tr failed_step_def)
  have t0: "trace world0 = []"
    by (simp add: world0_def)
  let ?f = "EvAttachUserPolicy ''vault-user'' ''arn:aws:iam::aws:policy/ReadOnlyAccess''
              (Some (ExtErr ''NoSuchEntity''))"
  have mem: "?f \<in> set (trace (snd ?R))" and fs: "failed_step ?f"
    by (simp_all add: tr failed_step_def)
  from durable_user_wal_discipline [of env_attach_fails "''alice''" "''readonly''" role_readonly world0]
  obtain evs where evs: "trace (snd ?R) = trace world0 @ evs"
    and step: "\<forall>f. f \<in> set evs \<and> failed_step f \<longrightarrow>
        (\<exists>e. outcome f = Some e \<and>
           fst ?R = (Some (ErrorResponse (step_error_prefix f @ error_text e)),
                     CheckAWSError env_attach_fails e)) \<and>
        surfaced_error (fst ?R) \<and>
        \<not> list_ex is_DeleteWAL evs \<and>
        (\<exists>walID u. EvPutWAL ''user'' \<lparr>UserName = u\<rparr> (Inr walID) \<in> set evs \<and>
           wal (snd ?R) walID = Some (''user'', \<lparr>UserName = u\<rparr>))"
    by (elim exE conjE) (rule that; assumption)
  have same: "evs = trace (snd ?R)"
    using evs by (simp add: t0)
  have failed: "(\<exists>e. outcome ?f = Some e \<and>
                   fst ?R = (Some (ErrorResponse (step_error_prefix ?f @ error_text e)),
                             CheckAWSError env_attach_fails e)) \<and>
                surfaced_error (fst ?R) \<and> \<not> list_ex is_DeleteWAL (trace (snd ?R))"
    using step [rule_format, of ?f] mem fs unfolding same by blast
  then have exact: "fst ?R = (Some (ErrorResponse ''Error attaching user policy: NoSuchEntity''), None)"
    by (auto simp: env_attach_fails_def env_ok_def)
  have ts: "trace (snd ?S) =
      [EvClientIAM, EvStorageGet ''config/root'',
       EvPutWAL ''user'' \<lparr>UserName = ''vault-user''\<rparr> (Inr ''wal-1''),
       EvCreateUser \<lparr>cu_UserName = ''vault-user'', cu_Path = ''/'', cu_PermissionsBoundary = None\<rparr> None,
       EvAttachUserPolicy ''vault-user'' ''arn:aws:iam::aws:policy/ReadOnlyAccess'' None,
       EvCreateAccessKey ''vault-user'' None, EvDeleteWAL ''wal-1'' None, EvLease]"
    by (simp add: create_eval)
  have ret: "returned_secret (fst ?S) \<noteq> None"
    by (simp add: create_eval returned_secret_def)
  from durable_user_wal_discipline [of env_ok "''alice''" "''readonly''" role_readonly world0]
  have absent: "wal (snd ?S) ''wal-1'' = None"
    using ret unfolding t0 ts by auto
  have both: "fst (secretAccessKeysCreate env_create_and_delete_fail ''alice'' ''readonly''
                     role_readonly world0) =
     (None, Some (ErrWrap (Errorf ''failed to delete WAL entry'' (ExtErr ''storage sealed''))
                          (Errorf ''error creating IAM user'' (ExtErr ''EntityAlreadyExists''))))"
    by (simp add: create_eval)
  have commit: "fst (secretAccessKeysCreate env_commit_fails ''alice'' ''readonly'' role_readonly world0) =
     (None, Some (Errorf ''failed to commit WAL entry'' (ExtErr ''storage sealed'')))"
    by (simp add: create_eval)
  have dangling: "wal (snd (secretAccessKeysCreate env_commit_fails ''alice'' ''readonly'' role_readonly
                              world0)) ''wal-1'' = Some (''user'', \<lparr>UserName = ''vault-user''\<rparr>)"
    by (simp add: create_eval)
  show ?thesis
    using hyp failed exact ret absent both commit dangling by blast
qed

text \<open>
  When the creation of the principal fails and the entry is deleted, the entry is
  absent and an error is surfaced: both hold, not exactly one.
\<close>

theorem wal_absent_and_error_counterexample:
  "wal (snd (secretAccessKeysCreate env_create_fails ''alice'' ''readonly'' role_readonly world0))
     ''wal-1'' = None \<and>
   surfaced_error
     (fst (secretAccessKeysCreate env_create_fails ''alice'' ''readonly'' role_readonly world0)) \<and>
   trace (snd (secretAccessKeysCreate env_create_fails ''alice'' ''readonly'' role_readonly world0)) =
     [EvClientIAM, EvStorageGet ''config/root'',
      EvPutWAL ''user'' \<lparr>UserName = ''vault-user''\<rparr> (Inr ''wal-1''),
      EvCreateUser \<lparr>cu_UserName = ''vault-user'', cu_Path = ''/'', cu_PermissionsBoundary = None\<rparr>
        (Some (ExtErr ''EntityAlreadyExists'')),
      EvDeleteWAL ''wal-1'' None]"
  by (simp add: create_eval surfaced_error_def IsError_def has_entry_def)

subsection \<open>Issuance without a policy\<close>





lemmas sts_eval =
  getFederationToken_def assumeRole_def getSessionToken_def federationTokenInput_def
  assumeRoleInput_def sessionTokenInput_def readConfig_def emit_def genUsername_def
  env_ok_def world0_def engine_literal_def storageKey_def Secret_Response_def
  update_Secret_def secretAccessKeys_def secretAccessKeyType_def ErrorResponse_def Let_def
  time_Until_def time_Sub_def minDuration_def maxDuration_def creds_ok_def
  federationTokenCred_def convertPolicyARNs_def



subsection \<open>The lease of a durable user\<close>

lemma steps_failed_last:
  assumes "steps_failed u steps"
  shows "steps \<noteq> [] \<and> later_step (last steps)"
proof -
  from assms have ne: "steps \<noteq> []"
    by (auto simp: steps_failed_def)
  with assms show ?thesis
    by (auto simp: steps_failed_def list_all_iff)
qed

text \<open>How an issuance that reads the lease ends, and that no other issuance returns a Secret.\<close>

lemma create_endings:
  assumes run: "secretAccessKeysCreate ev d p role s = (r, s')"
  shows "(returned_secret r = None \<and> (\<forall>evs. trace s' \<noteq> trace s @ evs @ [EvLease])) \<or>
         (\<exists>evs resp sec. trace s' = trace s @ evs @ [EvLease] \<and>
            r = (Some resp, None) \<and> \<not> IsError resp \<and> Secret resp = Some sec \<and>
            InternalData sec ''is_sts'' = Some (VBool False) \<and>
            TTL sec = Lease (case backend_Lease ev (trace s @ evs) of
                               Inr (Some l) \<Rightarrow> l | _ \<Rightarrow> \<lparr>Lease = 0, LeaseMax = 0\<rparr>) \<and>
            MaxTTL sec = LeaseMax (case backend_Lease ev (trace s @ evs) of
                               Inr (Some l) \<Rightarrow> l | _ \<Rightarrow> \<lparr>Lease = 0, LeaseMax = 0\<rparr>))"
    (is "?N \<or> ?S")
proof -
  consider
    (early) evs where "trace s' = trace s @ evs" "returned_secret r = None"
      "evs = [EvClientIAM] \<or> evs = [EvClientIAM, EvStorageGet storageKey] \<or>
       (\<exists>w e. evs = [EvClientIAM, EvStorageGet storageKey, EvPutWAL ''user'' w (Inl e)])"
  | (create_failed) u walID e dl where
      "trace s' = trace s @ [EvClientIAM, EvStorageGet storageKey,
                              EvPutWAL ''user'' \<lparr>UserName = u\<rparr> (Inr walID),
                              EvCreateUser (createUserRequest u role) (Some e),
                              EvDeleteWAL walID dl]"
      "returned_secret r = None"
  | (provision) u walID where
      "provision_user ev u p role walID
          (s\<lparr>wal := (wal s)(walID \<mapsto> (''user'', \<lparr>UserName = u\<rparr>)),
             trace := trace s @ [EvClientIAM, EvStorageGet storageKey,
                                 EvPutWAL ''user'' \<lparr>UserName = u\<rparr> (Inr walID),
                                 EvCreateUser (createUserRequest u role) None]\<rparr>) = (r, s')"
    using create_cases [OF run] by (fastforce simp: returned_ErrorResponse returned_none)
  then show ?thesis
  proof cases
    case early
    then have "?N" by auto
    then show ?thesis ..
  next
    case create_failed
    then have "?N" by auto
    then show ?thesis ..
  next
    case provision
    let ?h = "[EvClientIAM, EvStorageGet storageKey,
               EvPutWAL ''user'' \<lparr>UserName = u\<rparr> (Inr walID),
               EvCreateUser (createUserRequest u role) None]"
    let ?s4 = "s\<lparr>wal := (wal s)(walID \<mapsto> (''user'', \<lparr>UserName = u\<rparr>)), trace := trace s @ ?h\<rparr>"
    consider
      (step_failed) steps where "trace s' = trace ?s4 @ steps" "steps_failed u steps"
        "returned_secret r = None"
    | (commit_failed) steps e where
        "trace s' = trace ?s4 @ steps @ [EvDeleteWAL walID (Some e)]"
        "r = (None, Some (Errorf ''failed to commit WAL entry'' e))"
    | (success) steps resp sec where
        "trace s' = trace ?s4 @ steps @ [EvDeleteWAL walID None, EvLease]"
        "r = (Some resp, None)" "\<not> IsError resp" "Secret resp = Some sec"
        "InternalData sec ''is_sts'' = Some (VBool False)"
        "TTL sec = Lease (case backend_Lease ev (trace ?s4 @ steps @ [EvDeleteWAL walID None]) of
                               Inr (Some l) \<Rightarrow> l | _ \<Rightarrow> \<lparr>Lease = 0, LeaseMax = 0\<rparr>)"
        "MaxTTL sec = LeaseMax (case backend_Lease ev (trace ?s4 @ steps @ [EvDeleteWAL walID None]) of
                               Inr (Some l) \<Rightarrow> l | _ \<Rightarrow> \<lparr>Lease = 0, LeaseMax = 0\<rparr>)"
      using provision_user_cases [OF provision] by blast
    then show ?thesis
    proof cases
      case step_failed
      from steps_failed_last [OF step_failed(2)]
      have "last (?h @ steps) \<noteq> EvLease"
        by auto
      moreover have "trace s' = trace s @ (?h @ steps)"
        using step_failed(1) by simp
      ultimately have "\<forall>evs. trace s' \<noteq> trace s @ evs @ [EvLease]"
        by (metis last_snoc same_append_eq)
      with step_failed(3) have "?N" by simp
      then show ?thesis ..
    next
      case commit_failed
      then have "?N" by (auto simp: returned_none)
      then show ?thesis ..
    next
      case success
      have "trace s' = trace s @ (?h @ steps @ [EvDeleteWAL walID None]) @ [EvLease]"
        using success(1) by simp
      moreover have "trace s @ (?h @ steps @ [EvDeleteWAL walID None]) =
                     trace ?s4 @ steps @ [EvDeleteWAL walID None]"
        by simp
      ultimately have "?S"
        using success(2-7) by (metis (no_types, lifting))
      then show ?thesis ..
    qed
  qed
qed

subsection \<open>The output contract of the four strategies\<close>

text \<open>
  C3. A Secret returned by the federation-token, session-token or assumed-role strategy
  has \<open>is_sts\<close> true, is not renewable, and its TTL is the expiration reported by the
  provider minus the clock reading taken after the provider's answer (the second of
  the two readings for a session token). A Secret returned by the durable-user strategy
  has \<open>is_sts\<close> false and its TTL and max-TTL are those of the lease configuration
  read at the end, or zero when the read fails or finds none. The subtraction of
  instants is exact within the range of a Duration.
\<close>

theorem strategy_secret_contract:
  "(\<forall>sec. returned_secret (fst (getFederationToken ev displayName policyName policy policyARNs
                                    iamGroups life s)) = Some sec \<longrightarrow>
      InternalData sec ''is_sts'' = Some (VBool True) \<and> \<not> Renewable sec \<and>
      (\<exists>inp creds.
         trace (snd (getFederationToken ev displayName policyName policy policyARNs iamGroups life s)) =
           trace s @ [EvGetGroupPolicies iamGroups, EvClientSTS, EvStorageGet storageKey,
                      EvGetFederationToken inp, EvTimeNow] \<and>
         GetFederationToken ev
           (trace s @ [EvGetGroupPolicies iamGroups, EvClientSTS, EvStorageGet storageKey]) inp =
           Inr creds \<and>
         TTL sec = time_Sub (Expiration creds)
           (time_Now ev (trace s @ [EvGetGroupPolicies iamGroups, EvClientSTS,
                                    EvStorageGet storageKey, EvGetFederationToken inp])))) \<and>
   (\<forall>sec. returned_secret (fst (getSessionToken ev serialNumber mfaCode life s)) = Some sec \<longrightarrow>
      InternalData sec ''is_sts'' = Some (VBool True) \<and> \<not> Renewable sec \<and>
      (\<exists>inp creds.
         trace (snd (getSessionToken ev serialNumber mfaCode life s)) =
           trace s @ [EvClientSTS, EvGetSessionToken inp, EvTimeNow, EvTimeNow] \<and>
         GetSessionToken ev (trace s @ [EvClientSTS]) inp = Inr creds \<and>
         TTL sec = time_Sub (Expiration creds)
           (time_Now ev (trace s @ [EvClientSTS, EvGetSessionToken inp, EvTimeNow])))) \<and>
   (\<forall>sec. returned_secret (fst (assumeRole ev displayName roleName roleArn policy policyARNs
                                    iamGroups life roleSessionName s)) = Some sec \<longrightarrow>
      InternalData sec ''is_sts'' = Some (VBool True) \<and> \<not> Renewable sec \<and>
      (\<exists>inp out.
         trace (snd (assumeRole ev displayName roleName roleArn policy policyARNs iamGroups life
                        roleSessionName s)) =
           trace s @ [EvGetGroupPolicies iamGroups, EvClientSTS, EvStorageGet storageKey,
                      EvAssumeRole inp, EvTimeNow] \<and>
         AssumeRole ev
           (trace s @ [EvGetGroupPolicies iamGroups, EvClientSTS, EvStorageGet storageKey]) inp =
           Inr out \<and>
         TTL sec = time_Sub (Expiration (ar_Credentials out))
           (time_Now ev (trace s @ [EvGetGroupPolicies iamGroups, EvClientSTS,
                                    EvStorageGet storageKey, EvAssumeRole inp])))) \<and>
   (\<forall>sec. returned_secret (fst (secretAccessKeysCreate ev displayName policyName role s)) = Some sec \<longrightarrow>
      InternalData sec ''is_sts'' = Some (VBool False) \<and>
      (\<exists>evs. trace (snd (secretAccessKeysCreate ev displayName policyName role s)) =
                trace s @ evs @ [EvLease] \<and>
         TTL sec = Lease (case backend_Lease ev (trace s @ evs) of
                            Inr (Some l) \<Rightarrow> l | _ \<Rightarrow> \<lparr>Lease = 0, LeaseMax = 0\<rparr>) \<and>
         MaxTTL sec = LeaseMax (case backend_Lease ev (trace s @ evs) of
                            Inr (Some l) \<Rightarrow> l | _ \<Rightarrow> \<lparr>Lease = 0, LeaseMax = 0\<rparr>))) \<and>
   (\<forall>t u. minDuration \<le> t - u \<and> t - u \<le> maxDuration \<longrightarrow> time_Sub t u = t - u)"
proof -
  have durable: "InternalData sec ''is_sts'' = Some (VBool False) \<and>
      (\<exists>evs. trace (snd (secretAccessKeysCreate ev displayName policyName role s)) =
                trace s @ evs @ [EvLease] \<and>
         TTL sec = Lease (case backend_Lease ev (trace s @ evs) of
                            Inr (Some l) \<Rightarrow> l | _ \<Rightarrow> \<lparr>Lease = 0, LeaseMax = 0\<rparr>) \<and>
         MaxTTL sec = LeaseMax (case backend_Lease ev (trace s @ evs) of
                            Inr (Some l) \<Rightarrow> l | _ \<Rightarrow> \<lparr>Lease = 0, LeaseMax = 0\<rparr>))"
    if "returned_secret (fst (secretAccessKeysCreate ev displayName policyName role s)) = Some sec"
    for sec
    using create_endings [OF prod.collapse [symmetric], of ev displayName policyName role s] that
    by (auto simp: returned_secret_def)
  show ?thesis
    using federation_secret [of ev displayName policyName policy policyARNs iamGroups life s]
      session_token_secret [of ev serialNumber mfaCode life s]
      assume_role_secret [of ev displayName roleName roleArn policy policyARNs iamGroups life
        roleSessionName s]
      durable time_Sub_exact
    by blast
qed

theorem strategy_secret_contract_witness:
  "returned_secret (fst (getFederationToken env_ok ''alice'' ''deploy'' ''policy-document'' [] [] 900 world0)) =
     Some \<lparr>TTL = 3600000000000, MaxTTL = 0, Renewable = False,
           InternalData = [''username'' \<mapsto> VStr ''vault-user'',
                           ''policy'' \<mapsto> VStr ''policy-document'',
                           ''is_sts'' \<mapsto> VBool True,
                           ''secret_type'' \<mapsto> VStr ''access_keys'']\<rparr> \<and>
   returned_secret (fst (getSessionToken env_ok [] [] 900 world0)) =
     Some \<lparr>TTL = 3600000000000, MaxTTL = 0, Renewable = False,
           InternalData = [''is_sts'' \<mapsto> VBool True, ''secret_type'' \<mapsto> VStr ''access_keys'']\<rparr> \<and>
   returned_secret (fst (assumeRole env_ok ''alice'' ''deploy'' ''arn:aws:iam::1:role/deploy''
                           ''policy-document'' [] [] 900 ''session one'' world0)) =
     Some \<lparr>TTL = 3600000000000, MaxTTL = 0, Renewable = False,
           InternalData = [''username'' \<mapsto> VStr ''session_one'',
                           ''policy'' \<mapsto> VStr ''arn:aws:iam::1:role/deploy'',
                           ''is_sts'' \<mapsto> VBool True,
                           ''secret_type'' \<mapsto> VStr ''access_keys'']\<rparr> \<and>
   returned_secret (fst (secretAccessKeysCreate env_ok ''alice'' ''readonly'' role_readonly world0)) =
     Some \<lparr>TTL = 3600000000000, MaxTTL = 86400000000000, Renewable = True,
           InternalData = [''username'' \<mapsto> VStr ''vault-user'',
                           ''policy'' \<mapsto> VRole role_readonly,
                           ''is_sts'' \<mapsto> VBool False,
                           ''secret_type'' \<mapsto> VStr ''access_keys'']\<rparr> \<and>
   minDuration \<le> 3600000000000 - 0 \<and> 3600000000000 - 0 \<le> maxDuration \<and>
   time_Sub 3600000000000 0 = 3600000000000 - 0"
proof -
  let ?F = "getFederationToken env_ok ''alice'' ''deploy'' ''policy-document'' [] [] 900 world0"
  let ?C = "secretAccessKeysCreate env_ok ''alice'' ''readonly'' role_readonly world0"
  let ?secF = "\<lparr>TTL = 3600000000000, MaxTTL = 0, Renewable = False,
           InternalData = [''username'' \<mapsto> VStr ''vault-user'',
                           ''policy'' \<mapsto> VStr ''policy-document'',
                           ''is_sts'' \<mapsto> VBool True,
                           ''secret_type'' \<mapsto> VStr ''access_keys'']\<rparr>"
  have f: "returned_secret (fst ?F) = Some ?secF"
    by (simp add: sts_eval returned_secret_def)
  have st: "returned_secret (fst (getSessionToken env_ok [] [] 900 world0)) =
     Some \<lparr>TTL = 3600000000000, MaxTTL = 0, Renewable = False,
           InternalData = [''is_sts'' \<mapsto> VBool True, ''secret_type'' \<mapsto> VStr ''access_keys'']\<rparr>"
    by (simp add: sts_eval returned_secret_def)
  have ar: "returned_secret (fst (assumeRole env_ok ''alice'' ''deploy'' ''arn:aws:iam::1:role/deploy''
                           ''policy-document'' [] [] 900 ''session one'' world0)) =
     Some \<lparr>TTL = 3600000000000, MaxTTL = 0, Renewable = False,
           InternalData = [''username'' \<mapsto> VStr ''session_one'',
                           ''policy'' \<mapsto> VStr ''arn:aws:iam::1:role/deploy'',
                           ''is_sts'' \<mapsto> VBool True,
                           ''secret_type'' \<mapsto> VStr ''access_keys'']\<rparr>"
    by (simp add: sts_eval returned_secret_def normalizeDisplayName_def allowed_byte_def in_range_def)
  have c: "returned_secret (fst ?C) =
     Some \<lparr>TTL = 3600000000000, MaxTTL = 86400000000000, Renewable = True,
           InternalData = [''username'' \<mapsto> VStr ''vault-user'',
                           ''policy'' \<mapsto> VRole role_readonly,
                           ''is_sts'' \<mapsto> VBool False,
                           ''secret_type'' \<mapsto> VStr ''access_keys'']\<rparr>"
    by (simp add: create_eval returned_secret_def)
  have lo: "minDuration \<le> 3600000000000 - 0" and hi: "3600000000000 - 0 \<le> maxDuration"
    by (simp_all add: minDuration_def maxDuration_def)
  note inst = strategy_secret_contract [of env_ok "''alice''" "''deploy''" "''policy-document''" "[]"
      "[]" 900 world0]
  from inst f have "\<not> Renewable ?secF"
    by blast
  moreover from inst lo hi have "time_Sub 3600000000000 0 = 3600000000000 - 0"
    by blast
  ultimately show ?thesis
    using f st ar c lo hi by blast
qed

text \<open>
  C10. When a durable-user issuance gets as far as reading the lease configuration, it
  answers with a Secret and no error whatever the read returns, and when the read
  fails or finds no configuration the Secret has TTL 0 and max-TTL 0. Renew, for a
  Secret that is not an STS one, answers with the error of the failed read instead.
\<close>

theorem lease_failure_swallowed_on_create:
  "(\<forall>evs. trace (snd (secretAccessKeysCreate ev displayName policyName role s)) =
            trace s @ evs @ [EvLease] \<longrightarrow>
      (\<exists>resp sec.
         fst (secretAccessKeysCreate ev displayName policyName role s) = (Some resp, None) \<and>
         \<not> IsError resp \<and> Secret resp = Some sec \<and>
         ((\<exists>e. backend_Lease ev (trace s @ evs) = Inl e) \<or>
          backend_Lease ev (trace s @ evs) = Inr None \<longrightarrow>
          TTL sec = 0 \<and> MaxTTL sec = 0))) \<and>
   (\<forall>sec e. InternalData sec ''is_sts'' \<noteq> Some (VBool True) \<and>
            backend_Lease ev (trace s) = Inl e \<longrightarrow>
      secretAccessKeysRenew ev sec s = ((None, Some e), emit EvLease s))"
proof (intro conjI allI impI)
  fix evs
  assume tr: "trace (snd (secretAccessKeysCreate ev displayName policyName role s)) =
            trace s @ evs @ [EvLease]"
  from create_endings [OF prod.collapse [symmetric], of ev displayName policyName role s] tr
  obtain evs' resp sec where e:
    "trace (snd (secretAccessKeysCreate ev displayName policyName role s)) = trace s @ evs' @ [EvLease]"
    "fst (secretAccessKeysCreate ev displayName policyName role s) = (Some resp, None)"
    "\<not> IsError resp" "Secret resp = Some sec"
    "TTL sec = Lease (case backend_Lease ev (trace s @ evs') of
                               Inr (Some l) \<Rightarrow> l | _ \<Rightarrow> \<lparr>Lease = 0, LeaseMax = 0\<rparr>)"
    "MaxTTL sec = LeaseMax (case backend_Lease ev (trace s @ evs') of
                               Inr (Some l) \<Rightarrow> l | _ \<Rightarrow> \<lparr>Lease = 0, LeaseMax = 0\<rparr>)"
    by blast
  from e(1) tr have "evs' = evs"
    by simp
  with e show "\<exists>resp sec.
         fst (secretAccessKeysCreate ev displayName policyName role s) = (Some resp, None) \<and>
         \<not> IsError resp \<and> Secret resp = Some sec \<and>
         ((\<exists>e. backend_Lease ev (trace s @ evs) = Inl e) \<or>
          backend_Lease ev (trace s @ evs) = Inr None \<longrightarrow>
          TTL sec = 0 \<and> MaxTTL sec = 0)"
    by auto
next
  fix sec :: secret and e
  assume "InternalData sec ''is_sts'' \<noteq> Some (VBool True) \<and> backend_Lease ev (trace s) = Inl e"
  then show "secretAccessKeysRenew ev sec s = ((None, Some e), emit EvLease s)"
    using renew_not_sts [of sec ev s] by simp
qed

theorem lease_failure_swallowed_on_create_witness:
  "trace (snd (secretAccessKeysCreate env_lease_down ''alice'' ''readonly'' role_readonly world0)) =
     [EvClientIAM, EvStorageGet ''config/root'',
      EvPutWAL ''user'' \<lparr>UserName = ''vault-user''\<rparr> (Inr ''wal-1''),
      EvCreateUser \<lparr>cu_UserName = ''vault-user'', cu_Path = ''/'', cu_PermissionsBoundary = None\<rparr> None,
      EvAttachUserPolicy ''vault-user'' ''arn:aws:iam::aws:policy/ReadOnlyAccess'' None,
      EvCreateAccessKey ''vault-user'' None, EvDeleteWAL ''wal-1'' None, EvLease] \<and>
   returned_secret (fst (secretAccessKeysCreate env_lease_down ''alice'' ''readonly'' role_readonly world0)) =
     Some \<lparr>TTL = 0, MaxTTL = 0, Renewable = True,
           InternalData = [''username'' \<mapsto> VStr ''vault-user'',
                           ''policy'' \<mapsto> VRole role_readonly,
                           ''is_sts'' \<mapsto> VBool False,
                           ''secret_type'' \<mapsto> VStr ''access_keys'']\<rparr> \<and>
   \<not> surfaced_error (fst (secretAccessKeysCreate env_lease_down ''alice'' ''readonly'' role_readonly world0)) \<and>
   returned_secret (fst (secretAccessKeysCreate env_no_lease ''alice'' ''readonly'' role_readonly world0)) =
     Some \<lparr>TTL = 0, MaxTTL = 0, Renewable = True,
           InternalData = [''username'' \<mapsto> VStr ''vault-user'',
                           ''policy'' \<mapsto> VRole role_readonly,
                           ''is_sts'' \<mapsto> VBool False,
                           ''secret_type'' \<mapsto> VStr ''access_keys'']\<rparr> \<and>
   secretAccessKeysRenew env_lease_down secret_durable world0 =
     ((None, Some (ExtErr ''storage sealed'')), \<lparr>wal = Map.empty, trace = [EvLease]\<rparr>)"
proof -
  let ?C = "secretAccessKeysCreate env_lease_down ''alice'' ''readonly'' role_readonly world0"
  let ?evs = "[EvClientIAM, EvStorageGet ''config/root'',
      EvPutWAL ''user'' \<lparr>UserName = ''vault-user''\<rparr> (Inr ''wal-1''),
      EvCreateUser \<lparr>cu_UserName = ''vault-user'', cu_Path = ''/'', cu_PermissionsBoundary = None\<rparr> None,
      EvAttachUserPolicy ''vault-user'' ''arn:aws:iam::aws:policy/ReadOnlyAccess'' None,
      EvCreateAccessKey ''vault-user'' None, EvDeleteWAL ''wal-1'' None]"
  have tr: "trace (snd ?C) = trace world0 @ ?evs @ [EvLease]"
    by (simp add: create_eval)
  have down: "backend_Lease env_lease_down (trace world0 @ ?evs) = Inl (ExtErr ''storage sealed'')"
    by (simp add: env_lease_down_def)
  have sec: "returned_secret (fst ?C) =
     Some \<lparr>TTL = 0, MaxTTL = 0, Renewable = True,
           InternalData = [''username'' \<mapsto> VStr ''vault-user'',
                           ''policy'' \<mapsto> VRole role_readonly,
                           ''is_sts'' \<mapsto> VBool False,
                           ''secret_type'' \<mapsto> VStr ''access_keys'']\<rparr>"
    by (simp add: create_eval returned_secret_def)
  have sec': "returned_secret (fst (secretAccessKeysCreate env_no_lease ''alice'' ''readonly'' role_readonly world0)) =
     Some \<lparr>TTL = 0, MaxTTL = 0, Renewable = True,
           InternalData = [''username'' \<mapsto> VStr ''vault-user'',
                           ''policy'' \<mapsto> VRole role_readonly,
                           ''is_sts'' \<mapsto> VBool False,
                           ''secret_type'' \<mapsto> VStr ''access_keys'']\<rparr>"
    by (simp add: create_eval returned_secret_def)
  note inst = lease_failure_swallowed_on_create [of env_lease_down "''alice''" "''readonly''"
      role_readonly world0]
  from inst tr obtain resp where r: "fst ?C = (Some resp, None)" "\<not> IsError resp"
    by blast
  then have ok: "\<not> surfaced_error (fst ?C)"
    by (simp add: surfaced_error_def)
  have n: "InternalData secret_durable ''is_sts'' \<noteq> Some (VBool True)"
    by (simp add: secret_durable_def)
  have d0: "backend_Lease env_lease_down (trace world0) = Inl (ExtErr ''storage sealed'')"
    by (simp add: env_lease_down_def)
  from inst n d0 have "secretAccessKeysRenew env_lease_down secret_durable world0 =
     ((None, Some (ExtErr ''storage sealed'')), emit EvLease world0)"
    by blast
  then have renew: "secretAccessKeysRenew env_lease_down secret_durable world0 =
     ((None, Some (ExtErr ''storage sealed'')), \<lparr>wal = Map.empty, trace = [EvLease]\<rparr>)"
    by (simp add: emit_def world0_def)
  have tr': "trace (snd ?C) = ?evs @ [EvLease]"
    using tr by (simp add: world0_def)
  show ?thesis
    using tr' sec ok sec' renew by simp
qed

end
